theory Spec2Isabelle
  imports Main "HOL-Library.Char_ord" "HOL-Library.List_Lexorder"
begin

section \<open>JavaScript values used by the socket server\<close>

text \<open>
  Identifiers (user ids, thread ids, room names) are strings. A field of an event
  payload that may be absent is a \<open>string option\<close>; JavaScript's truthiness test on it
  (\<open>!x\<close>, \<open>x || y\<close>, \<open>x && y\<close>) is false for an absent field and for the empty string.
  A thrown \<open>Error\<close> object is represented by its \<open>message\<close>.
\<close>

type_synonym ident = string

datatype error = Error (errMessage: string)

definition truthy :: "string option \<Rightarrow> bool" where
  "truthy x = (case x of None \<Rightarrow> False | Some s \<Rightarrow> s \<noteq> [])"

text \<open>\<open>a || b\<close> on optional strings.\<close>

definition or_else :: "string option \<Rightarrow> string option \<Rightarrow> string option" where
  "or_else a b = (if truthy a then a else b)"

text \<open>\<open>x || null\<close>: a falsy value becomes \<open>null\<close>.\<close>

definition or_null :: "string option \<Rightarrow> string option" where
  "or_null a = (if truthy a then a else None)"

section \<open>The readiness gate: \<open>waitForDB\<close>\<close>

text \<open>
  What one attempt of the loop observes: \<open>mongoose.connection.readyState\<close>, whether
  \<open>mongoose.connection.db\<close> is set, and whether the ping and the document count
  succeed (each either resolves or rejects).
\<close>

record conn_obs =
  readyState :: nat
  dbPresent :: bool
  pingOk :: bool
  countOk :: bool

record wait_result =
  ready :: bool
  attempts :: nat
  sleptMs :: nat

text \<open>
  The \<open>for\<close> loop of \<open>waitForDB\<close>, from attempt \<open>i\<close> on. A failed probe sleeps 500 ms and
  continues; an unready state sleeps \<open>delay\<close> ms. The result records the returned
  boolean, the number of attempts made and the total time slept.
\<close>

function waitForDB_from ::
  "(nat \<Rightarrow> conn_obs) \<Rightarrow> nat \<Rightarrow> nat \<Rightarrow> nat \<Rightarrow> nat \<Rightarrow> wait_result" where
  "waitForDB_from obs maxRetries delay i slept =
     (if i < maxRetries then
        (if readyState (obs i) = 1 \<and> dbPresent (obs i) then
           (if pingOk (obs i) \<and> countOk (obs i)
            then \<lparr>ready = True, attempts = i + 1, sleptMs = slept\<rparr>
            else waitForDB_from obs maxRetries delay (i + 1) (slept + 500))
         else waitForDB_from obs maxRetries delay (i + 1) (slept + delay))
      else \<lparr>ready = False, attempts = i, sleptMs = slept\<rparr>)"
  by pat_completeness auto
termination
  by (relation "measure (\<lambda>(obs, maxRetries, delay, i, slept). maxRetries - i)") auto

declare waitForDB_from.simps [simp del]

definition waitForDB :: "(nat \<Rightarrow> conn_obs) \<Rightarrow> nat \<Rightarrow> nat \<Rightarrow> wait_result" where
  "waitForDB obs maxRetries delay = waitForDB_from obs maxRetries delay 0 0"

text \<open>An attempt on which the loop returns \<open>true\<close>.\<close>

definition usable :: "conn_obs \<Rightarrow> bool" where
  "usable ob = (readyState ob = 1 \<and> dbPresent ob \<and> pingOk ob \<and> countOk ob)"

text \<open>An attempt whose state flag reads connected but whose probe fails.\<close>

definition probe_miss :: "conn_obs \<Rightarrow> bool" where
  "probe_miss ob = (readyState ob = 1 \<and> dbPresent ob \<and> \<not> (pingOk ob \<and> countOk ob))"

section \<open>Documents, the database and the effects of a handler\<close>

text \<open>
  The documents the handlers read, with the fields they use. Object ids are
  represented by their hexadecimal string (\<open>toString()\<close>).
\<close>

record quotation_doc =
  quotedBy :: ident
  q_rfq :: ident

record rfq_doc =
  requestedBy :: ident

record shop_doc =
  owner :: "ident option"

record product_doc =
  shopRef :: "ident option"

text \<open>The product as \<open>getProductWithShop\<close> returns it: \<open>product.shop\<close> replaced by the shop document or \<open>null\<close>.\<close>

record product_with_shop =
  pshop :: "shop_doc option"

record user_doc =
  username :: "string option"
  email :: "string option"
  profile :: "string option"

text \<open>The argument of \<open>saveMessageNative\<close> and the document it inserts.\<close>

record message_data =
  d_quotation :: "string option"
  d_rfq :: "string option"
  d_product :: "string option"
  d_sender :: ident
  d_receiver :: ident
  d_message :: string
  d_attachments :: "string list"

record message_doc =
  md_quotation :: "ident option"
  md_rfq :: "ident option"
  md_product :: "ident option"
  md_sender :: ident
  md_receiver :: ident
  md_message :: string
  md_attachments :: "string list"
  md_readAt :: "nat option"
  md_createdAt :: nat

text \<open>\<open>savedMessage.sender\<close>: the stored object id, or the user document that replaced it.\<close>

datatype sender_ref = SenderId ident | SenderDoc ident user_doc

record saved_message =
  sm_id :: ident
  sm_doc :: message_doc
  sm_sender :: sender_ref

text \<open>
  Everything outside the handlers, as one handler run observes it. An awaited
  operation settles: it resolves (\<open>Inr\<close>) or rejects (\<open>Inl\<close>). An operation that
  the source races against a timer has a flag saying that the timer wins.
  \<open>newObjectId\<close> is the driver's \<open>ObjectId\<close> constructor, which throws on a
  malformed string.
\<close>

record world =
  probes :: "nat \<Rightarrow> conn_obs"
  connState :: nat
  connDb :: bool
  newObjectId :: "string \<Rightarrow> error + ident"
  findQuotation :: "ident \<Rightarrow> error + quotation_doc option"
  findRFQ :: "ident \<Rightarrow> error + rfq_doc option"
  findProduct :: "ident \<Rightarrow> error + product_doc option"
  findShop :: "ident \<Rightarrow> error + shop_doc option"
  productQuerySlow :: bool
  pingDb :: "error option"
  insertOne :: "message_doc \<Rightarrow> error + ident option"
  insertSlow :: bool
  readBack :: "ident \<Rightarrow> error + bool"
  findSlow :: bool
  findUser :: "ident \<Rightarrow> error + user_doc option"
  senderSlow :: bool
  now :: nat

text \<open>The payload of an inbound event: every field may be absent.\<close>

record payload =
  quotationId :: "string option"
  rfqId :: "string option"
  productId :: "string option"
  receiverId :: "string option"
  receiver :: "string option"
  message :: "string option"
  attachments :: "string list option"
  room :: "string option"

text \<open>The message as broadcast (\<open>formattedMessage\<close>) and the object around it.\<close>

record sender_view =
  sv_id :: ident
  sv_username :: "string option"
  sv_email :: "string option"
  sv_profile :: "string option"

record formatted_message =
  fm_id :: ident
  fm_quotation :: "string option"
  fm_rfq :: "string option"
  fm_product :: "string option"
  fm_sender :: "sender_view option"
  fm_receiver :: string
  fm_message :: string
  fm_attachments :: "string list"
  fm_readAt :: "nat option"
  fm_createdAt :: nat

record broadcast =
  b_message :: formatted_message
  b_quotationId :: "string option"
  b_rfqId :: "string option"
  b_productId :: "string option"

text \<open>
  What a handler does to the outside, in order: \<open>socket.emit('error', {message, details})\<close>,
  \<open>socket.emit('joined-room', {room, id})\<close>, \<open>socket.join\<close>, \<open>socket.leave\<close>, the call
  of \<open>insertOne\<close>, \<open>io.to(room).emit(event, payload)\<close> and
  \<open>socket.to(room).emit('user-typing', {userId, typing})\<close>. The source calls neither
  \<open>socket.disconnect\<close> nor \<open>process.exit\<close> in a handler, so there is no effect for them.
\<close>

datatype effect =
    EmitError string "string option"
  | EmitJoinedRoom string string
  | SocketJoin string
  | SocketLeave string
  | InsertOne message_doc
  | IoToEmit string string broadcast
  | SocketToEmit string string ident bool

text \<open>The run of a \<open>try\<close> block: the effects performed and the error thrown, if any.\<close>

type_synonym run = "effect list \<times> error option"

text \<open>What the event loop sees of a listener: it returned, or an exception escaped it.\<close>

datatype outcome = Returned "effect list" | Uncaught error

text \<open>V8's messages for destructuring \<open>undefined\<close> and for reading a property of \<open>null\<close>.\<close>

definition destructureError :: "string \<Rightarrow> error" where
  "destructureError prop =
     Error (''Cannot destructure property '' @ [CHR 0x27] @ prop @ [CHR 0x27]
            @ '' of 'data' as it is undefined.'')"

definition nullReadError :: "string \<Rightarrow> error" where
  "nullReadError prop =
     Error (''Cannot read properties of null (reading '' @ [CHR 0x27] @ prop @ [CHR 0x27] @ '')'')"

text \<open>\<open>rfq.requestedBy.toString()\<close>, where \<open>rfq\<close> may be \<open>null\<close>.\<close>

definition requestedByOf :: "rfq_doc option \<Rightarrow> error + ident" where
  "requestedByOf r = (case r of None \<Rightarrow> Inl (nullReadError ''requestedBy'')
                               | Some rf \<Rightarrow> Inr (requestedBy rf))"

text \<open>
  \<open>quotation.quotedBy.toString() !== x && rfq.requestedBy.toString() !== x\<close>: the test
  of both quotation handlers, on \<open>socket.userId\<close> and on \<open>receiver\<close>. The right operand
  is evaluated, and throws on a \<open>null\<close> \<open>rfq\<close>, only when the left one holds.
\<close>

definition neitherParty :: "quotation_doc \<Rightarrow> rfq_doc option \<Rightarrow> ident \<Rightarrow> error + bool" where
  "neitherParty quotation rfq x =
     (if quotedBy quotation \<noteq> x
      then (case requestedByOf rfq of Inl e \<Rightarrow> Inl e | Inr rb \<Rightarrow> Inr (rb \<noteq> x))
      else Inr False)"

text \<open>A template literal prints an absent value as \<open>undefined\<close>.\<close>

definition tmpl :: "string option \<Rightarrow> string" where
  "tmpl x = (case x of None \<Rightarrow> ''undefined'' | Some s \<Rightarrow> s)"

text \<open>\<open>String.prototype.includes\<close>.\<close>

fun str_includes :: "string \<Rightarrow> string \<Rightarrow> bool" where
  "str_includes [] sub = (sub = [])"
| "str_includes (c # cs) sub = (take (length sub) (c # cs) = sub \<or> str_includes cs sub)"

text \<open>\<open>String.prototype.replace\<close> with a string pattern: the first occurrence only.\<close>

fun replaceFirst :: "string \<Rightarrow> string \<Rightarrow> string \<Rightarrow> string" where
  "replaceFirst pat rep [] = (if pat = [] then rep else [])"
| "replaceFirst pat rep (c # cs) =
     (if take (length pat) (c # cs) = pat then rep @ drop (length pat) (c # cs)
      else c # replaceFirst pat rep cs)"

section \<open>Resolving a product and persisting a message\<close>

text \<open>
  The shop lookup inside \<open>getProductWithShop\<close>: only when \<open>product.shop\<close> is set; a
  malformed reference or a failed lookup is caught and leaves \<open>product.shop = null\<close>.
  The reference is held as its string; for a reference stored as an object id the
  constructor is expected to accept that string.
\<close>

definition resolveShop :: "world \<Rightarrow> product_doc \<Rightarrow> product_with_shop" where
  "resolveShop w p =
     (case shopRef p of
        None \<Rightarrow> \<lparr>pshop = None\<rparr>
      | Some ref \<Rightarrow>
          (if ref = [] then \<lparr>pshop = None\<rparr>
           else (case newObjectId w ref of
                   Inl e \<Rightarrow> \<lparr>pshop = None\<rparr>
                 | Inr sid \<Rightarrow> (case findShop w sid of
                                Inl e \<Rightarrow> \<lparr>pshop = None\<rparr>
                              | Inr s \<Rightarrow> \<lparr>pshop = s\<rparr>))))"

definition getProductWithShop :: "world \<Rightarrow> string \<Rightarrow> error + product_with_shop option" where
  "getProductWithShop w pid =
     (if \<not> connDb w then Inl (Error ''Database not available'')
      else (case newObjectId w pid of
              Inl e \<Rightarrow> Inl (Error (''Invalid product ID: '' @ pid))
            | Inr oid \<Rightarrow> (case findProduct w oid of
                            Inl e \<Rightarrow> Inl e
                          | Inr None \<Rightarrow> Inr None
                          | Inr (Some p) \<Rightarrow> Inr (Some (resolveShop w p)))))"

text \<open>
  \<open>product.shop?.owner?.toString() || product.shop?.owner?._id?.toString()\<close>: the owner
  is an object id, whose \<open>_id\<close> is the id itself.
\<close>

definition shopOwnerId_join :: "product_with_shop \<Rightarrow> string option" where
  "shopOwnerId_join p =
     (case pshop p of None \<Rightarrow> None | Some s \<Rightarrow> or_else (owner s) (owner s))"

text \<open>The same in \<open>send-message\<close>, with a third alternative that ends in \<open>null\<close>.\<close>

definition shopOwnerId_send :: "product_with_shop \<Rightarrow> string option" where
  "shopOwnerId_send p =
     (case pshop p of None \<Rightarrow> None
      | Some s \<Rightarrow> or_else (or_else (owner s) (owner s)) (owner s))"

text \<open>\<open>x ? new ObjectId(x) : undefined\<close>.\<close>

definition refObjectId :: "world \<Rightarrow> string option \<Rightarrow> error + ident option" where
  "refObjectId w x =
     (case x of
        None \<Rightarrow> Inr None
      | Some s \<Rightarrow> (if s = [] then Inr None
                   else (case newObjectId w s of Inl e \<Rightarrow> Inl e | Inr i \<Rightarrow> Inr (Some i))))"

text \<open>
  The sender lookup at the end of \<open>saveMessageNative\<close>: a timeout, a rejection or a
  missing user leaves the object id in place.
\<close>

definition populateSender :: "world \<Rightarrow> ident \<Rightarrow> sender_ref" where
  "populateSender w s =
     (if senderSlow w then SenderId s
      else (case findUser w s of
              Inl e \<Rightarrow> SenderId s
            | Inr None \<Rightarrow> SenderId s
            | Inr (Some u) \<Rightarrow> SenderDoc s u))"

text \<open>
  \<open>saveMessageNative\<close> from the insert on: the insert raced against 8 s, the read-back
  raced against 5 s, then the sender lookup.
\<close>

definition insertAndFetch :: "world \<Rightarrow> message_doc \<Rightarrow> effect list \<times> (error + saved_message)" where
  "insertAndFetch w doc =
     (if insertSlow w
      then ([InsertOne doc], Inl (Error ''Insert operation timeout after 8 seconds''))
      else (case insertOne w doc of
              Inl e \<Rightarrow> ([InsertOne doc], Inl e)
            | Inr None \<Rightarrow> ([InsertOne doc], Inl (Error ''Failed to save message''))
            | Inr (Some i) \<Rightarrow>
                (if findSlow w
                 then ([InsertOne doc], Inl (Error ''Find operation timeout after 5 seconds''))
                 else (case readBack w i of
                         Inl e \<Rightarrow> ([InsertOne doc], Inl e)
                       | Inr False \<Rightarrow>
                           ([InsertOne doc], Inl (Error ''Message saved but could not be retrieved''))
                       | Inr True \<Rightarrow>
                           ([InsertOne doc],
                            Inr \<lparr>sm_id = i, sm_doc = doc,
                                 sm_sender = populateSender w (md_sender doc)\<rparr>)))))"

text \<open>
  \<open>saveMessageNative\<close>: the connection checks, the ping, the document with its object
  ids built in the order of the object literal, the validation, then the insert.
\<close>

definition saveMessageNative :: "world \<Rightarrow> message_data \<Rightarrow> effect list \<times> (error + saved_message)" where
  "saveMessageNative w d =
     (if connState w \<noteq> 1 then ([], Inl (Error ''Database not connected''))
      else if \<not> connDb w then ([], Inl (Error ''Database not available''))
      else (case pingDb w of
        Some e \<Rightarrow> ([], Inl e)
      | None \<Rightarrow>
       (case refObjectId w (d_quotation d) of
        Inl e \<Rightarrow> ([], Inl e)
      | Inr q \<Rightarrow>
       (case refObjectId w (d_rfq d) of
        Inl e \<Rightarrow> ([], Inl e)
      | Inr r \<Rightarrow>
       (case refObjectId w (d_product d) of
        Inl e \<Rightarrow> ([], Inl e)
      | Inr p \<Rightarrow>
       (case newObjectId w (d_sender d) of
        Inl e \<Rightarrow> ([], Inl e)
      | Inr s \<Rightarrow>
       (case newObjectId w (d_receiver d) of
        Inl e \<Rightarrow> ([], Inl e)
      | Inr rc \<Rightarrow>
         (if q = None \<and> r = None \<and> p = None
          then ([], Inl (Error ''Either quotation, rfq, or product must be provided''))
          else insertAndFetch w
                 \<lparr>md_quotation = q, md_rfq = r, md_product = p, md_sender = s,
                  md_receiver = rc, md_message = d_message d,
                  md_attachments = d_attachments d, md_readAt = None,
                  md_createdAt = now w\<rparr>))))))))"

text \<open>The number of thread references a draft sets.\<close>

definition refCount :: "message_data \<Rightarrow> nat" where
  "refCount d = length (filter truthy [d_quotation d, d_rfq d, d_product d])"

section \<open>Room names\<close>

text \<open>
  \<open>[socket.userId, receiverId].sort()\<close> and the template around it, as written in
  \<open>join-product-room\<close> and again in \<open>send-message\<close>. The default sort compares
  strings by code unit; on strings of bytes that is the lexicographic order of the
  characters.
\<close>

definition productRoom_join :: "string \<Rightarrow> ident \<Rightarrow> string \<Rightarrow> string" where
  "productRoom_join pid uid rid =
     (let userIds = sort [uid, rid]
      in ''product-'' @ pid @ ''-'' @ userIds ! 0 @ ''-'' @ userIds ! 1)"

definition productRoom_send :: "string \<Rightarrow> ident \<Rightarrow> string \<Rightarrow> string" where
  "productRoom_send pid uid rcv =
     (let userIds = sort [uid, rcv]
      in ''product-'' @ pid @ ''-'' @ userIds ! 0 @ ''-'' @ userIds ! 1)"

text \<open>The room of a \<open>typing\<close> or \<open>stop-typing\<close> event; \<open>None\<close> is the early \<open>return\<close>.\<close>

definition typingRoom :: "payload \<Rightarrow> string option" where
  "typingRoom d =
     (if truthy (productId d) \<and> truthy (receiverId d)
      then Some (''product-'' @ tmpl (productId d) @ ''-'' @ tmpl (receiverId d))
      else if truthy (quotationId d) then Some (''quotation-'' @ tmpl (quotationId d))
      else if truthy (rfqId d) then Some (''rfq-'' @ tmpl (rfqId d))
      else None)"

section \<open>The event handlers\<close>

text \<open>
  Each handler that touches the database is an \<open>async\<close> function whose body is one
  \<open>try\<close> block: \<open>h_try\<close> is the run of the block, \<open>h\<close> adds what the \<open>catch\<close> clause
  emits. \<open>uid\<close> is \<open>socket.userId\<close>; the payload is \<open>None\<close> when the client sent none.
\<close>

definition notReady :: run where
  "notReady = ([EmitError ''Database not connected. Please try again.'' None], None)"

text \<open>\<open>error.message || 'Unknown error'\<close>.\<close>

definition messageOrUnknown :: "error \<Rightarrow> string" where
  "messageOrUnknown e = (if errMessage e = [] then ''Unknown error'' else errMessage e)"

definition joinQuotationRoom_try :: "world \<Rightarrow> ident \<Rightarrow> payload option \<Rightarrow> run" where
  "joinQuotationRoom_try w uid data =
     (if \<not> ready (waitForDB (probes w) 15 1000) then notReady
      else (case data of
        None \<Rightarrow> ([], Some (destructureError ''quotationId''))
      | Some d \<Rightarrow>
         (if \<not> truthy (quotationId d) then ([EmitError ''Quotation ID is required'' None], None)
          else (case findQuotation w (tmpl (quotationId d)) of
            Inl e \<Rightarrow> ([], Some e)
          | Inr None \<Rightarrow> ([EmitError ''Quotation not found'' None], None)
          | Inr (Some quotation) \<Rightarrow>
             (case findRFQ w (q_rfq quotation) of
               Inl e \<Rightarrow> ([], Some e)
             | Inr rfq \<Rightarrow>
                (case neitherParty quotation rfq uid of
                   Inl e \<Rightarrow> ([], Some e)
                 | Inr True \<Rightarrow> ([EmitError ''Access denied'' None], None)
                 | Inr False \<Rightarrow>
                     ([SocketJoin (''quotation-'' @ tmpl (quotationId d)),
                       EmitJoinedRoom (''quotation-'' @ tmpl (quotationId d))
                                      (tmpl (quotationId d))], None)))))))"

definition joinQuotationRoom :: "world \<Rightarrow> ident \<Rightarrow> payload option \<Rightarrow> effect list" where
  "joinQuotationRoom w uid data =
     (case joinQuotationRoom_try w uid data of
        (effs, None) \<Rightarrow> effs
      | (effs, Some e) \<Rightarrow>
          effs @ [EmitError (''Failed to join quotation room: '' @ messageOrUnknown e)
                            (Some (errMessage e))])"

definition joinRfqRoom_try :: "world \<Rightarrow> ident \<Rightarrow> payload option \<Rightarrow> run" where
  "joinRfqRoom_try w uid data =
     (if \<not> ready (waitForDB (probes w) 15 1000) then notReady
      else (case data of
        None \<Rightarrow> ([], Some (destructureError ''rfqId''))
      | Some d \<Rightarrow>
         (if \<not> truthy (rfqId d) then ([EmitError ''RFQ ID is required'' None], None)
          else (case findRFQ w (tmpl (rfqId d)) of
            Inl e \<Rightarrow> ([], Some e)
          | Inr None \<Rightarrow> ([EmitError ''RFQ not found'' None], None)
          | Inr (Some rfq) \<Rightarrow>
             (if requestedBy rfq \<noteq> uid then ([EmitError ''Access denied'' None], None)
              else ([SocketJoin (''rfq-'' @ tmpl (rfqId d)),
                     EmitJoinedRoom (''rfq-'' @ tmpl (rfqId d)) (tmpl (rfqId d))], None))))))"

definition joinRfqRoom :: "world \<Rightarrow> ident \<Rightarrow> payload option \<Rightarrow> effect list" where
  "joinRfqRoom w uid data =
     (case joinRfqRoom_try w uid data of
        (effs, None) \<Rightarrow> effs
      | (effs, Some e) \<Rightarrow>
          effs @ [EmitError (''Failed to join RFQ room: '' @ messageOrUnknown e)
                            (Some (errMessage e))])"


text \<open>
  \<open>join-product-room\<close>. The product lookup is raced against a 5 s timer. The guard on
  \<open>shopOwnerId\<close> comes before the access check.
\<close>

definition joinProductRoom_try :: "world \<Rightarrow> ident \<Rightarrow> payload option \<Rightarrow> run" where
  "joinProductRoom_try w uid data =
     (if \<not> ready (waitForDB (probes w) 15 1000) then notReady
      else if connState w \<noteq> 1
      then ([EmitError ''Database connection lost. Please try again.'' None], None)
      else (case data of
        None \<Rightarrow> ([], Some (destructureError ''productId''))
      | Some d \<Rightarrow>
         (if \<not> truthy (productId d) \<or> \<not> truthy (receiverId d)
          then ([EmitError ''Product ID and receiver ID are required'' None], None)
          else if productQuerySlow w
          then ([], Some (Error ''Product query timeout after 5 seconds''))
          else (case getProductWithShop w (tmpl (productId d)) of
            Inl e \<Rightarrow> ([], Some e)
          | Inr None \<Rightarrow>
              ([EmitError (''Product not found: '' @ tmpl (productId d)) None], None)
          | Inr (Some product) \<Rightarrow>
             (if \<not> truthy (shopOwnerId_join product)
              then ([EmitError ''Product shop information not available'' None], None)
              else if \<not> (Some uid = receiverId d
                          \<or> shopOwnerId_join product = Some uid
                          \<or> shopOwnerId_join product = receiverId d)
              then ([EmitError
                       ''Access denied. You do not have permission to join this room.'' None],
                    None)
              else ([SocketJoin (productRoom_join (tmpl (productId d)) uid (tmpl (receiverId d))),
                     EmitJoinedRoom
                       (productRoom_join (tmpl (productId d)) uid (tmpl (receiverId d)))
                       (tmpl (productId d))], None))))))"

text \<open>The message the \<open>catch\<close> clause of \<open>join-product-room\<close> chooses.\<close>

definition joinProductErrorMessage :: "error \<Rightarrow> string" where
  "joinProductErrorMessage e =
     (if str_includes (errMessage e) ''buffering timed out''
      then ''Database connection not ready. Please try again in a moment.''
      else if str_includes (errMessage e) ''timeout'' then ''Query timeout. Please try again.''
      else ''Failed to join room: '' @ errMessage e)"

definition joinProductRoom :: "world \<Rightarrow> ident \<Rightarrow> payload option \<Rightarrow> effect list" where
  "joinProductRoom w uid data =
     (case joinProductRoom_try w uid data of
        (effs, None) \<Rightarrow> effs
      | (effs, Some e) \<Rightarrow>
          effs @ [EmitError (joinProductErrorMessage e) (Some (errMessage e))])"

text \<open>
  \<open>send-message\<close>, first part: the branch on the thread reference, which verifies access
  and computes \<open>room\<close>. \<open>Inl\<close> is a run that ends the handler (an early \<open>return\<close> after an
  error event, or a throw); \<open>Inr\<close> is the room. \<open>rcv\<close> is the (truthy) \<open>receiver\<close>.
  The handler reaches the branch only with one of the three ids set, so the last
  \<open>else if (productId)\<close> holds whenever it is evaluated.
\<close>

definition sendRoom :: "world \<Rightarrow> ident \<Rightarrow> payload \<Rightarrow> string \<Rightarrow> run + string" where
  "sendRoom w uid d rcv =
     (if truthy (quotationId d) then
        (case findQuotation w (tmpl (quotationId d)) of
           Inl e \<Rightarrow> Inl ([], Some e)
         | Inr None \<Rightarrow> Inl ([EmitError ''Quotation not found'' None], None)
         | Inr (Some quotation) \<Rightarrow>
            (case findRFQ w (q_rfq quotation) of
               Inl e \<Rightarrow> Inl ([], Some e)
             | Inr rfq \<Rightarrow>
                (case neitherParty quotation rfq uid of
                   Inl e \<Rightarrow> Inl ([], Some e)
                 | Inr True \<Rightarrow> Inl ([EmitError ''Access denied'' None], None)
                 | Inr False \<Rightarrow>
                    (case neitherParty quotation rfq rcv of
                       Inl e \<Rightarrow> Inl ([], Some e)
                     | Inr True \<Rightarrow> Inl ([EmitError ''Invalid receiver'' None], None)
                     | Inr False \<Rightarrow> Inr (''quotation-'' @ tmpl (quotationId d))))))
      else if truthy (rfqId d) then
        (case findRFQ w (tmpl (rfqId d)) of
           Inl e \<Rightarrow> Inl ([], Some e)
         | Inr None \<Rightarrow> Inl ([EmitError ''RFQ not found'' None], None)
         | Inr (Some rfq) \<Rightarrow>
            (if requestedBy rfq \<noteq> uid then Inl ([EmitError ''Access denied'' None], None)
             else Inr (''rfq-'' @ tmpl (rfqId d))))
      else
        (case getProductWithShop w (tmpl (productId d)) of
           Inl e \<Rightarrow> Inl ([], Some e)
         | Inr None \<Rightarrow> Inl ([EmitError ''Product not found'' None], None)
         | Inr (Some product) \<Rightarrow>
            (if shopOwnerId_send product \<noteq> Some rcv \<and> uid \<noteq> rcv
             then Inl ([EmitError ''Access denied'' None], None)
             else Inr (productRoom_send (tmpl (productId d)) uid rcv))))"

text \<open>The argument the handler passes to \<open>saveMessageNative\<close>.\<close>

definition draftOf :: "ident \<Rightarrow> payload \<Rightarrow> message_data" where
  "draftOf uid d =
     \<lparr>d_quotation = or_null (quotationId d), d_rfq = or_null (rfqId d),
      d_product = or_null (productId d), d_sender = uid, d_receiver = tmpl (receiver d),
      d_message = tmpl (message d),
      d_attachments = (case attachments d of None \<Rightarrow> [] | Some a \<Rightarrow> a)\<rparr>"

text \<open>\<open>formattedMessage\<close>: object ids printed, the sender reduced to four fields.\<close>

definition formatSender :: "sender_ref \<Rightarrow> sender_view" where
  "formatSender s =
     (case s of
        SenderId i \<Rightarrow> \<lparr>sv_id = i, sv_username = None, sv_email = None, sv_profile = None\<rparr>
      | SenderDoc i u \<Rightarrow>
          \<lparr>sv_id = i, sv_username = username u, sv_email = email u, sv_profile = profile u\<rparr>)"

definition formatMessage :: "saved_message \<Rightarrow> formatted_message" where
  "formatMessage m =
     \<lparr>fm_id = sm_id m,
      fm_quotation = md_quotation (sm_doc m),
      fm_rfq = md_rfq (sm_doc m),
      fm_product = md_product (sm_doc m),
      fm_sender = Some (formatSender (sm_sender m)),
      fm_receiver = md_receiver (sm_doc m),
      fm_message = md_message (sm_doc m),
      fm_attachments = md_attachments (sm_doc m),
      fm_readAt = md_readAt (sm_doc m),
      fm_createdAt = md_createdAt (sm_doc m)\<rparr>"

text \<open>The object emitted with \<open>message-received\<close> and with \<open>new-message\<close>.\<close>

definition broadcastOf :: "payload \<Rightarrow> saved_message \<Rightarrow> broadcast" where
  "broadcastOf d m =
     \<lparr>b_message = formatMessage m, b_quotationId = or_null (quotationId d),
      b_rfqId = or_null (rfqId d), b_productId = or_null (productId d)\<rparr>"

text \<open>
  \<open>send-message\<close>, second part: persist, then emit to the room and to the receiver's
  personal room. The two \<open>fetchSockets\<close> calls in between only feed the log.
\<close>

definition persistAndBroadcast :: "world \<Rightarrow> ident \<Rightarrow> payload \<Rightarrow> string \<Rightarrow> string \<Rightarrow> run" where
  "persistAndBroadcast w uid d rcv rm =
     (case saveMessageNative w (draftOf uid d) of
        (effs, Inl e) \<Rightarrow> (effs, Some e)
      | (effs, Inr messageDoc) \<Rightarrow>
          (effs @ [IoToEmit rm ''message-received'' (broadcastOf d messageDoc),
                   IoToEmit (''user-'' @ rcv) ''new-message'' (broadcastOf d messageDoc)],
           None))"

definition sendMessage_try :: "world \<Rightarrow> ident \<Rightarrow> payload option \<Rightarrow> run" where
  "sendMessage_try w uid data =
     (if \<not> ready (waitForDB (probes w) 15 1000) then notReady
      else (case data of
        None \<Rightarrow> ([], Some (destructureError ''quotationId''))
      | Some d \<Rightarrow>
         (if \<not> truthy (message d) \<or> \<not> truthy (receiver d)
          then ([EmitError ''Message and receiver are required'' None], None)
          else if \<not> truthy (quotationId d) \<and> \<not> truthy (rfqId d) \<and> \<not> truthy (productId d)
          then ([EmitError ''Either quotationId, rfqId, or productId is required'' None], None)
          else (case sendRoom w uid d (tmpl (receiver d)) of
                  Inl stop \<Rightarrow> stop
                | Inr rm \<Rightarrow> persistAndBroadcast w uid d (tmpl (receiver d)) rm))))"

definition sendMessage :: "world \<Rightarrow> ident \<Rightarrow> payload option \<Rightarrow> effect list" where
  "sendMessage w uid data =
     (case sendMessage_try w uid data of
        (effs, None) \<Rightarrow> effs
      | (effs, Some e) \<Rightarrow>
          effs @ [EmitError (''Failed to send message: '' @ messageOrUnknown e)
                            (Some (errMessage e))])"

text \<open>\<open>typing\<close> and \<open>stop-typing\<close>: no \<open>try\<close>, no database.\<close>

definition typing :: "ident \<Rightarrow> payload option \<Rightarrow> outcome" where
  "typing uid data =
     (case data of
        None \<Rightarrow> Uncaught (destructureError ''quotationId'')
      | Some d \<Rightarrow> (case typingRoom d of
                     None \<Rightarrow> Returned []
                   | Some rm \<Rightarrow> Returned [SocketToEmit rm ''user-typing'' uid True]))"

definition stopTyping :: "ident \<Rightarrow> payload option \<Rightarrow> outcome" where
  "stopTyping uid data =
     (case data of
        None \<Rightarrow> Uncaught (destructureError ''quotationId'')
      | Some d \<Rightarrow> (case typingRoom d of
                     None \<Rightarrow> Returned []
                   | Some rm \<Rightarrow> Returned [SocketToEmit rm ''user-typing'' uid False]))"





text \<open>
  The shapes of a run's effects: one error event with a message and no details, a room
  joined and confirmed, a message inserted and emitted twice with the same payload.
\<close>

definition errorOnly :: "effect list \<Rightarrow> bool" where
  "errorOnly effs = (case effs of [EmitError m None] \<Rightarrow> m \<noteq> [] | _ \<Rightarrow> False)"



section \<open>Connection: authentication and the personal room\<close>

record handshake =
  authToken :: "string option"
  authorization :: "string option"

text \<open>The module variable \<open>JWT_SECRET\<close> and \<open>process.env.JWT_SECRET\<close>.\<close>

record config =
  JWT_SECRET :: "string option"
  envJWT_SECRET :: "string option"

record claims =
  userId :: ident
  role :: string

text \<open>
  The middleware of \<open>io.use\<close>. \<open>verify\<close> is \<open>jwt.verify\<close> of the token library: it
  returns the decoded claims or throws (malformed token, expired token, bad
  signature, ...). The result is what \<open>next\<close> receives: an error, or nothing with the
  claims stored on the socket.
\<close>

text \<open>\<open>socket.handshake.auth.token || socket.handshake.headers.authorization?.replace('Bearer ', '')\<close>.\<close>

definition bearerToken :: "handshake \<Rightarrow> string option" where
  "bearerToken hs =
     or_else (authToken hs) (map_option (replaceFirst ''Bearer '' []) (authorization hs))"

text \<open>\<open>JWT_SECRET || process.env.JWT_SECRET\<close>.\<close>

definition secretOf :: "config \<Rightarrow> string option" where
  "secretOf cfg = or_else (JWT_SECRET cfg) (envJWT_SECRET cfg)"

definition authenticate ::
  "(string \<Rightarrow> string \<Rightarrow> error + claims) \<Rightarrow> config \<Rightarrow> handshake \<Rightarrow> error + claims" where
  "authenticate verify cfg hs =
     (let token = bearerToken hs
      in if \<not> truthy token then Inl (Error ''Authentication token required'')
         else (let secret = secretOf cfg
               in if \<not> truthy secret then Inl (Error ''JWT_SECRET not configured'')
                  else (case verify (tmpl token) (tmpl secret) of
                          Inl e \<Rightarrow> Inl (Error ''Authentication failed'')
                        | Inr decoded \<Rightarrow> Inr decoded)))"

text \<open>Strings without a hyphen, and the number of hyphens of a string.\<close>

definition hyphenFree :: "string \<Rightarrow> bool" where
  "hyphenFree s = (CHR ''-'' \<notin> set s)"

definition hyphens :: "string \<Rightarrow> nat" where
  "hyphens s = length (filter (\<lambda>c. c = CHR ''-'') s)"

text \<open>
  The \<open>connection\<close> listener: the socket joins its personal room; the handlers are
  attached when the database is connected, else the session is told to retry.
\<close>

definition onConnection :: "bool \<Rightarrow> nat \<Rightarrow> ident \<Rightarrow> effect list \<times> bool" where
  "onConnection dbConnected state uid =
     (if dbConnected \<and> state = 1 then ([SocketJoin (''user-'' @ uid)], True)
      else ([SocketJoin (''user-'' @ uid),
             EmitError ''Server not ready. Please try again.'' None], False))"

section \<open>Sample inputs\<close>

text \<open>A backend that stays down, and one whose second attempt finds the flag set but the probe failing.\<close>

definition obsDown :: "nat \<Rightarrow> conn_obs" where
  "obsDown i = \<lparr>readyState = 0, dbPresent = False, pingOk = False, countOk = False\<rparr>"

definition obsFlaky :: "nat \<Rightarrow> conn_obs" where
  "obsFlaky i =
     (if i = 0 then \<lparr>readyState = 2, dbPresent = True, pingOk = False, countOk = False\<rparr>
      else if i = 1 then \<lparr>readyState = 1, dbPresent = True, pingOk = False, countOk = True\<rparr>
      else \<lparr>readyState = 1, dbPresent = True, pingOk = True, countOk = True\<rparr>)"

definition obsUp :: "nat \<Rightarrow> conn_obs" where
  "obsUp i = \<lparr>readyState = 1, dbPresent = True, pingOk = True, countOk = True\<rparr>"

text \<open>An \<open>ObjectId\<close> constructor that accepts the strings of 24 hexadecimal digits.\<close>

definition hexObjectId :: "string \<Rightarrow> error + ident" where
  "hexObjectId s =
     (if length s = 24 \<and> list_all (\<lambda>c. c \<in> set ''0123456789abcdef'') s then Inr s
      else Inl (Error ''input must be a 24 character hex string, 12 byte Uint8Array, or an integer''))"

definition idU1 :: ident where "idU1 = ''64b0000000000000000000a1''"
definition idU2 :: ident where "idU2 = ''64b0000000000000000000a2''"
definition idU3 :: ident where "idU3 = ''64b0000000000000000000a3''"
definition idQ1 :: ident where "idQ1 = ''64b0000000000000000000c1''"
definition idR1 :: ident where "idR1 = ''64b0000000000000000000d1''"
definition idP1 :: ident where "idP1 = ''64b0000000000000000000e1''"
definition idP2 :: ident where "idP2 = ''64b0000000000000000000e2''"
definition idS1 :: ident where "idS1 = ''64b0000000000000000000f1''"
definition idS2 :: ident where "idS2 = ''64b0000000000000000000f2''"
definition idM1 :: ident where "idM1 = ''64b000000000000000000001''"

text \<open>
  A connected database holding quotation \<open>Q1\<close> (quoted by \<open>U1\<close>, on RFQ \<open>R1\<close> requested by
  \<open>U2\<close>), product \<open>P1\<close> of shop \<open>S1\<close> owned by \<open>U3\<close>, and product \<open>P2\<close> whose shop \<open>S2\<close>
  does not exist.
\<close>

definition sampleWorld :: world where
  "sampleWorld =
     \<lparr>probes = obsUp, connState = 1, connDb = True, newObjectId = hexObjectId,
      findQuotation = (\<lambda>i. if i = idQ1 then Inr (Some \<lparr>quotedBy = idU1, q_rfq = idR1\<rparr>)
                            else Inr None),
      findRFQ = (\<lambda>i. if i = idR1 then Inr (Some \<lparr>requestedBy = idU2\<rparr>) else Inr None),
      findProduct = (\<lambda>i. if i = idP1 then Inr (Some \<lparr>shopRef = Some idS1\<rparr>)
                          else if i = idP2 then Inr (Some \<lparr>shopRef = Some idS2\<rparr>)
                          else Inr None),
      findShop = (\<lambda>i. if i = idS1 then Inr (Some \<lparr>owner = Some idU3\<rparr>) else Inr None),
      productQuerySlow = False, pingDb = None,
      insertOne = (\<lambda>doc. Inr (Some idM1)), insertSlow = False,
      readBack = (\<lambda>i. Inr True), findSlow = False,
      findUser = (\<lambda>i. Inr None), senderSlow = False, now = 0\<rparr>"

text \<open>A token verifier that knows one good token, one expired token, and rejects the rest.\<close>

definition sampleVerify :: "string \<Rightarrow> string \<Rightarrow> error + claims" where
  "sampleVerify token secret =
     (if secret \<noteq> ''s3cret'' then Inl (Error ''invalid signature'')
      else if token = ''good'' then Inr \<lparr>userId = idU1, role = ''buyer''\<rparr>
      else if token = ''old'' then Inl (Error ''jwt expired'')
      else Inl (Error ''jwt malformed''))"

definition noPayload :: payload where
  "noPayload = \<lparr>quotationId = None, rfqId = None, productId = None, receiverId = None,
                receiver = None, message = None, attachments = None, room = None\<rparr>"

definition hsOld :: handshake where
  "hsOld = \<lparr>authToken = Some ''old'', authorization = None\<rparr>"

definition hsGarbled :: handshake where
  "hsGarbled = \<lparr>authToken = None, authorization = Some ''Bearer x.y.z''\<rparr>"

definition cfgSet :: config where
  "cfgSet = \<lparr>JWT_SECRET = Some ''s3cret'', envJWT_SECRET = None\<rparr>"

definition cfgUnset :: config where
  "cfgUnset = \<lparr>JWT_SECRET = None, envJWT_SECRET = None\<rparr>"

definition joinQ1 :: payload where "joinQ1 = noPayload\<lparr>quotationId := Some idQ1\<rparr>"

definition joinR1 :: payload where "joinR1 = noPayload\<lparr>rfqId := Some idR1\<rparr>"

text \<open>Payloads and drafts used below.\<close>

definition joinP2self :: payload where
  "joinP2self = noPayload\<lparr>productId := Some idP2, receiverId := Some idU1\<rparr>"

definition draftNone :: message_data where
  "draftNone = \<lparr>d_quotation = None, d_rfq = None, d_product = None, d_sender = idU1,
                d_receiver = idU2, d_message = ''hi'', d_attachments = []\<rparr>"

definition draftOne :: message_data where
  "draftOne = draftNone\<lparr>d_rfq := Some idR1\<rparr>"

definition draftTwo :: message_data where
  "draftTwo = draftNone\<lparr>d_quotation := Some idQ1, d_rfq := Some idR1\<rparr>"

definition sampleDoc :: "ident option \<Rightarrow> ident option \<Rightarrow> ident option \<Rightarrow> ident \<Rightarrow> ident \<Rightarrow> message_doc" where
  "sampleDoc q r p s rc =
     \<lparr>md_quotation = q, md_rfq = r, md_product = p, md_sender = s, md_receiver = rc,
      md_message = ''hi'', md_attachments = [], md_readAt = None, md_createdAt = 0\<rparr>"

definition sendR1 :: payload where
  "sendR1 = noPayload\<lparr>rfqId := Some idR1, receiver := Some idU3, message := Some ''hi''\<rparr>"

definition sendP1 :: payload where
  "sendP1 = noPayload\<lparr>productId := Some idP1, receiver := Some idU2, message := Some ''hi''\<rparr>"

definition sendQ1 :: payload where
  "sendQ1 = noPayload\<lparr>quotationId := Some idQ1, receiver := Some idU3, message := Some ''hi''\<rparr>"

definition sampleSaved :: "message_doc \<Rightarrow> saved_message" where
  "sampleSaved doc = \<lparr>sm_id = idM1, sm_doc = doc, sm_sender = SenderId (md_sender doc)\<rparr>"

definition sendQ1ok :: payload where
  "sendQ1ok = noPayload\<lparr>quotationId := Some idQ1, receiver := Some idU2, message := Some ''hi''\<rparr>"

definition typingP1 :: payload where
  "typingP1 = noPayload\<lparr>productId := Some idP1, receiverId := Some idU3\<rparr>"

definition joinP1 :: payload where
  "joinP1 = noPayload\<lparr>productId := Some idP1, receiverId := Some idU3\<rparr>"

text \<open>The sample database in which the lookup of user \<open>U1\<close> finds a name and an address.\<close>

definition namedWorld :: world where
  "namedWorld =
     sampleWorld\<lparr>findUser := (\<lambda>i. if i = idU1
                                   then Inr (Some \<lparr>username = Some ''alice'',
                                                   email = Some ''alice@example.com'',
                                                   profile = None\<rparr>)
                                   else Inr None)\<rparr>"



definition sendQ1R1 :: payload where
  "sendQ1R1 = noPayload\<lparr>quotationId := Some idQ1, rfqId := Some idR1, receiver := Some idU2,
                         message := Some ''hi''\<rparr>"

section \<open>The readiness gate is bounded\<close>

lemma waitForDB_from_attempts: "i \<le> n \<Longrightarrow> attempts (waitForDB_from obs n d i s) \<le> n"
proof (induction obs n d i s rule: waitForDB_from.induct)
  case (1 obs maxRetries delay i slept)
  show ?case
    using "1.IH" "1.prems"
    by (subst waitForDB_from.simps) auto
qed

lemma waitForDB_from_unready:
  "i \<le> n \<Longrightarrow> (\<forall>j. i \<le> j \<and> j < n \<longrightarrow> \<not> usable (obs j)) \<Longrightarrow>
     \<not> ready (waitForDB_from obs n d i s) \<and> attempts (waitForDB_from obs n d i s) = n
     \<and> sleptMs (waitForDB_from obs n d i s) \<le> s + (n - i) * max d 500"
proof (induction obs n d i s rule: waitForDB_from.induct)
  case (1 obs maxRetries delay i slept)
  show ?case
  proof (cases "i < maxRetries")
    case False
    with "1.prems" show ?thesis by (subst (1 2 3) waitForDB_from.simps) simp
  next
    case True
    have nu: "\<not> usable (obs i)" using True "1.prems" by simp
    have rest: "\<forall>j. i + 1 \<le> j \<and> j < maxRetries \<longrightarrow> \<not> usable (obs j)" using "1.prems" by simp
    have step: "(maxRetries - (i + 1)) * max delay 500 + max delay 500
                  = (maxRetries - i) * max delay 500"
      using True by (metis Suc_diff_Suc Suc_eq_plus1 add.commute mult_Suc)
    show ?thesis
    proof (cases "readyState (obs i) = 1 \<and> dbPresent (obs i)")
      case c: True
      then have miss: "\<not> (pingOk (obs i) \<and> countOk (obs i))" using nu by (auto simp: usable_def)
      from "1.IH"(1)[OF True c miss _ rest] True
      have ih: "\<not> ready (waitForDB_from obs maxRetries delay (i + 1) (slept + 500)) \<and>
        attempts (waitForDB_from obs maxRetries delay (i + 1) (slept + 500)) = maxRetries \<and>
        sleptMs (waitForDB_from obs maxRetries delay (i + 1) (slept + 500))
          \<le> slept + 500 + (maxRetries - (i + 1)) * max delay 500" by simp
      have eq: "waitForDB_from obs maxRetries delay i slept
                  = waitForDB_from obs maxRetries delay (i + 1) (slept + 500)"
        using True c miss by (subst waitForDB_from.simps) auto
      show ?thesis unfolding eq using ih step by linarith
    next
      case c: False
      from "1.IH"(2)[OF True c _ rest] True
      have ih: "\<not> ready (waitForDB_from obs maxRetries delay (i + 1) (slept + delay)) \<and>
        attempts (waitForDB_from obs maxRetries delay (i + 1) (slept + delay)) = maxRetries \<and>
        sleptMs (waitForDB_from obs maxRetries delay (i + 1) (slept + delay))
          \<le> slept + delay + (maxRetries - (i + 1)) * max delay 500" by simp
      have eq: "waitForDB_from obs maxRetries delay i slept
                  = waitForDB_from obs maxRetries delay (i + 1) (slept + delay)"
        using True c by (subst waitForDB_from.simps) auto
      show ?thesis unfolding eq using ih step by linarith
    qed
  qed
qed

lemma waitForDB_from_skip:
  "i \<le> k \<Longrightarrow> k \<le> n \<Longrightarrow> (\<forall>j. i \<le> j \<and> j < k \<longrightarrow> \<not> usable (obs j)) \<Longrightarrow>
     \<exists>s'. waitForDB_from obs n d i s = waitForDB_from obs n d k s'"
proof (induction "k - i" arbitrary: i s)
  case 0
  then have "i = k" by simp
  then show ?case by blast
next
  case (Suc m)
  then have lt: "i < k" and ltn: "i < n" by auto
  have nu: "\<not> usable (obs i)" using Suc.prems lt by simp
  have "\<exists>s1. waitForDB_from obs n d i s = waitForDB_from obs n d (i + 1) s1"
  proof (cases "readyState (obs i) = 1 \<and> dbPresent (obs i)")
    case True
    then have "\<not> (pingOk (obs i) \<and> countOk (obs i))" using nu by (auto simp: usable_def)
    with True ltn have "waitForDB_from obs n d i s = waitForDB_from obs n d (i + 1) (s + 500)"
      by (subst waitForDB_from.simps) auto
    then show ?thesis by blast
  next
    case False
    with ltn have "waitForDB_from obs n d i s = waitForDB_from obs n d (i + 1) (s + d)"
      by (subst waitForDB_from.simps) auto
    then show ?thesis by blast
  qed
  then obtain s1 where s1: "waitForDB_from obs n d i s = waitForDB_from obs n d (i + 1) s1" ..
  have "m = k - (i + 1)" using Suc.hyps by simp
  from Suc.hyps(1)[OF this, of s1] Suc.prems lt
  obtain s' where "waitForDB_from obs n d (i + 1) s1 = waitForDB_from obs n d k s'" by auto
  with s1 show ?case by auto
qed

lemma waitForDB_from_miss_then_ok:
  assumes "j + 1 < n" "probe_miss (obs j)" "usable (obs (j + 1))"
  shows "ready (waitForDB_from obs n d j s) \<and> attempts (waitForDB_from obs n d j s) = j + 2"
proof -
  have a: "waitForDB_from obs n d j s = waitForDB_from obs n d (j + 1) (s + 500)"
    using assms by (subst waitForDB_from.simps) (auto simp: probe_miss_def)
  have b: "waitForDB_from obs n d (j + 1) (s + 500)
             = \<lparr>ready = True, attempts = j + 2, sleptMs = s + 500\<rparr>"
    using assms by (subst waitForDB_from.simps) (auto simp: usable_def)
  show ?thesis unfolding a b by simp
qed

text \<open>
  C6. \<open>waitForDB\<close> is a total function: it makes at most \<open>maxRetries\<close> attempts. Against a
  backend that is unusable on every attempt it makes exactly \<open>maxRetries\<close> attempts and
  returns \<open>false\<close> (the handlers then emit the not-connected error), having slept at most
  \<open>maxRetries * max delay 500\<close> ms. An attempt that finds the state flag set while the
  probe fails does not end the loop: if the next attempt is usable, the gate returns
  \<open>true\<close> on it. Each probe is taken to settle.
\<close>

theorem waitForDB_bounded:
  "attempts (waitForDB obs n d) \<le> n
   \<and> ((\<forall>i<n. \<not> usable (obs i)) \<longrightarrow>
        \<not> ready (waitForDB obs n d) \<and> attempts (waitForDB obs n d) = n
        \<and> sleptMs (waitForDB obs n d) \<le> n * max d 500)
   \<and> (j + 1 < n \<and> (\<forall>i<j. \<not> usable (obs i)) \<and> probe_miss (obs j) \<and> usable (obs (j + 1)) \<longrightarrow>
        ready (waitForDB obs n d) \<and> attempts (waitForDB obs n d) = j + 2)"
proof (intro conjI impI)
  show "attempts (waitForDB obs n d) \<le> n"
    unfolding waitForDB_def by (rule waitForDB_from_attempts) simp
next
  assume h: "\<forall>i<n. \<not> usable (obs i)"
  from waitForDB_from_unready[of 0 n obs d 0] h
  have r: "\<not> ready (waitForDB obs n d) \<and> attempts (waitForDB obs n d) = n
        \<and> sleptMs (waitForDB obs n d) \<le> n * max d 500"
    unfolding waitForDB_def by simp
  from r show "\<not> ready (waitForDB obs n d)" by simp
  from r show "attempts (waitForDB obs n d) = n" by simp
  from r show "sleptMs (waitForDB obs n d) \<le> n * max d 500" by simp
next
  assume h: "j + 1 < n \<and> (\<forall>i<j. \<not> usable (obs i)) \<and> probe_miss (obs j) \<and> usable (obs (j + 1))"
  from waitForDB_from_skip[of 0 j n obs d 0] h
  obtain s' where s': "waitForDB obs n d = waitForDB_from obs n d j s'"
    unfolding waitForDB_def by auto
  from waitForDB_from_miss_then_ok[of j n obs d s'] h
  have r: "ready (waitForDB obs n d) \<and> attempts (waitForDB obs n d) = j + 2"
    unfolding s' by simp
  from r show "ready (waitForDB obs n d)" by simp
  from r show "attempts (waitForDB obs n d) = j + 2" by simp
qed

theorem waitForDB_bounded_witness:
  "(\<not> ready (waitForDB obsDown 15 1000) \<and> attempts (waitForDB obsDown 15 1000) = 15
        \<and> sleptMs (waitForDB obsDown 15 1000) \<le> 15 * max 1000 500)
   \<and> \<not> usable (obsFlaky 0) \<and> probe_miss (obsFlaky 1) \<and> usable (obsFlaky (1 + 1))
   \<and> (ready (waitForDB obsFlaky 15 1000) \<and> attempts (waitForDB obsFlaky 15 1000) = 1 + 2)"
proof -
  have d: "\<forall>i<15. \<not> usable (obsDown i)" by (simp add: usable_def obsDown_def)
  have f: "(1::nat) + 1 < 15 \<and> (\<forall>i<1. \<not> usable (obsFlaky i)) \<and> probe_miss (obsFlaky 1)
        \<and> usable (obsFlaky (1 + 1))"
    by (simp add: usable_def probe_miss_def obsFlaky_def)
  note A = waitForDB_bounded[of obsDown 15 1000 0, THEN conjunct2, THEN conjunct1, THEN mp, OF d]
  note B = waitForDB_bounded[of obsFlaky 15 1000 1, THEN conjunct2, THEN conjunct2, THEN mp, OF f]
  show ?thesis using d f A B by blast
qed

section \<open>Sample facts\<close>

lemma waitForDB_first_usable: "usable (obs 0) \<Longrightarrow> 0 < n \<Longrightarrow> ready (waitForDB obs n d)"
  unfolding waitForDB_def by (subst waitForDB_from.simps) (simp add: usable_def)

lemma sampleWorld_ready: "ready (waitForDB (probes sampleWorld) 15 1000)"
  by (rule waitForDB_first_usable) (simp_all add: sampleWorld_def obsUp_def usable_def)

lemma ids_distinct:
  "idU1 \<noteq> idU2" "idU1 \<noteq> idU3" "idU2 \<noteq> idU3" "idU2 \<noteq> idU1" "idU3 \<noteq> idU1" "idU3 \<noteq> idU2"
  by (simp_all add: idU1_def idU2_def idU3_def)

section \<open>Channel keys\<close>

lemma sort_pair: "sort [a, b :: string] = (if a \<le> b then [a, b] else [b, a])"
  by simp

lemma sort_pair_comm: "sort [a, b :: string] = sort [b, a]"
  by (auto simp: sort_pair)

text \<open>
  C4. The product room name does not depend on which of the two participants is
  \<open>socket.userId\<close> and which is the declared counterpart: in \<open>join-product-room\<close>, in
  \<open>send-message\<close>, and between the two handlers. (It holds for equal ids as well.)
\<close>

theorem productRoom_symmetric:
  "productRoom_join p a b = productRoom_join p b a
   \<and> productRoom_send p a b = productRoom_send p b a
   \<and> productRoom_join p a b = productRoom_send p b a"
  unfolding productRoom_join_def productRoom_send_def
  by (simp only: sort_pair_comm[of a b])

lemma productRoom_example: "productRoom_join ''P1'' ''U2'' ''U1'' = ''product-P1-U1-U2''"
  by (simp add: productRoom_join_def)

section \<open>Authentication\<close>

lemma authenticate_rejected:
  assumes "truthy (bearerToken hs)" "truthy (secretOf cfg)"
    and "isl (verify (tmpl (bearerToken hs)) (tmpl (secretOf cfg)))"
  shows "authenticate verify cfg hs = Inl (Error ''Authentication failed'')"
proof -
  from assms(3) obtain e where "verify (tmpl (bearerToken hs)) (tmpl (secretOf cfg)) = Inl e"
    by (auto simp: isl_def)
  with assms(1,2) show ?thesis by (simp add: authenticate_def)
qed

text \<open>
  C7. With a secret configured, every token that \<open>jwt.verify\<close> rejects, for whatever
  reason, gives the one error \<open>Authentication failed\<close>, so two rejected tokens give the
  same result. Without a secret the result is the different error
  \<open>JWT_SECRET not configured\<close>.
\<close>

theorem authenticate_failures_uniform:
  "(truthy (bearerToken hs1) \<and> truthy (bearerToken hs2) \<and> truthy (secretOf cfg)
      \<and> isl (verify (tmpl (bearerToken hs1)) (tmpl (secretOf cfg)))
      \<and> isl (verify (tmpl (bearerToken hs2)) (tmpl (secretOf cfg)))
     \<longrightarrow> authenticate verify cfg hs1 = Inl (Error ''Authentication failed'')
         \<and> authenticate verify cfg hs2 = authenticate verify cfg hs1)
   \<and> (truthy (bearerToken hs1) \<and> \<not> truthy (secretOf cfg)
     \<longrightarrow> authenticate verify cfg hs1 = Inl (Error ''JWT_SECRET not configured'')
         \<and> authenticate verify cfg hs1 \<noteq> Inl (Error ''Authentication failed''))"
proof (intro conjI impI)
  assume h: "truthy (bearerToken hs1) \<and> truthy (bearerToken hs2) \<and> truthy (secretOf cfg)
      \<and> isl (verify (tmpl (bearerToken hs1)) (tmpl (secretOf cfg)))
      \<and> isl (verify (tmpl (bearerToken hs2)) (tmpl (secretOf cfg)))"
  then have one: "authenticate verify cfg hs1 = Inl (Error ''Authentication failed'')"
    by (simp add: authenticate_rejected)
  from h have two: "authenticate verify cfg hs2 = Inl (Error ''Authentication failed'')"
    by (simp add: authenticate_rejected)
  show "authenticate verify cfg hs1 = Inl (Error ''Authentication failed'')" by (rule one)
  show "authenticate verify cfg hs2 = authenticate verify cfg hs1" by (simp add: one two)
next
  assume h: "truthy (bearerToken hs1) \<and> \<not> truthy (secretOf cfg)"
  then show m: "authenticate verify cfg hs1 = Inl (Error ''JWT_SECRET not configured'')"
    by (simp add: authenticate_def)
  show "authenticate verify cfg hs1 \<noteq> Inl (Error ''Authentication failed'')"
    by (simp add: m)
qed

theorem authenticate_failures_uniform_witness:
  "sampleVerify ''old'' ''s3cret'' = Inl (Error ''jwt expired'')
   \<and> sampleVerify ''x.y.z'' ''s3cret'' = Inl (Error ''jwt malformed'')
   \<and> authenticate sampleVerify cfgSet hsOld = Inl (Error ''Authentication failed'')
   \<and> authenticate sampleVerify cfgSet hsGarbled = authenticate sampleVerify cfgSet hsOld
   \<and> authenticate sampleVerify cfgUnset hsOld = Inl (Error ''JWT_SECRET not configured'')"
proof -
  have t: "bearerToken hsOld = Some ''old''" "bearerToken hsGarbled = Some ''x.y.z''"
    by (simp_all add: bearerToken_def hsOld_def hsGarbled_def or_else_def truthy_def)
  have s: "secretOf cfgSet = Some ''s3cret''" "secretOf cfgUnset = None"
    by (simp_all add: secretOf_def cfgSet_def cfgUnset_def or_else_def truthy_def)
  have v: "sampleVerify ''old'' ''s3cret'' = Inl (Error ''jwt expired'')"
     "sampleVerify ''x.y.z'' ''s3cret'' = Inl (Error ''jwt malformed'')"
    by (simp_all add: sampleVerify_def)
  have h1: "truthy (bearerToken hsOld) \<and> truthy (bearerToken hsGarbled) \<and> truthy (secretOf cfgSet)
      \<and> isl (sampleVerify (tmpl (bearerToken hsOld)) (tmpl (secretOf cfgSet)))
      \<and> isl (sampleVerify (tmpl (bearerToken hsGarbled)) (tmpl (secretOf cfgSet)))"
    by (simp add: t s v truthy_def tmpl_def)
  have h2: "truthy (bearerToken hsOld) \<and> \<not> truthy (secretOf cfgUnset)"
    by (simp add: t s truthy_def)
  note A = authenticate_failures_uniform[of hsOld hsGarbled cfgSet sampleVerify,
             THEN conjunct1, THEN mp, OF h1]
  note B = authenticate_failures_uniform[of hsOld hsGarbled cfgUnset sampleVerify,
             THEN conjunct2, THEN mp, OF h2]
  show ?thesis using v A B by blast
qed

section \<open>Joining a quotation or RFQ room\<close>

text \<open>
  C5. Once the gate is open and the thread is resolved (the quotation and its parent
  RFQ, or the RFQ, are found), \<open>join-quotation-room\<close> joins the room exactly when
  \<open>socket.userId\<close> is the quotation's \<open>quotedBy\<close> or the RFQ's \<open>requestedBy\<close>, and
  \<open>join-rfq-room\<close> exactly when it is the RFQ's \<open>requestedBy\<close>; every other identity gets
  the error \<open>Access denied\<close> and joins nothing.
\<close>

theorem join_authorization_matrix:
  "(ready (waitForDB (probes w) 15 1000) \<and> quotationId d = Some qid \<and> qid \<noteq> []
      \<and> findQuotation w qid = Inr (Some q) \<and> findRFQ w (q_rfq q) = Inr (Some rf)
     \<longrightarrow> joinQuotationRoom w uid (Some d) =
           (if uid = quotedBy q \<or> uid = requestedBy rf
            then [SocketJoin (''quotation-'' @ qid), EmitJoinedRoom (''quotation-'' @ qid) qid]
            else [EmitError ''Access denied'' None]))
   \<and> (ready (waitForDB (probes w) 15 1000) \<and> rfqId d = Some rid \<and> rid \<noteq> []
      \<and> findRFQ w rid = Inr (Some rf)
     \<longrightarrow> joinRfqRoom w uid (Some d) =
           (if uid = requestedBy rf
            then [SocketJoin (''rfq-'' @ rid), EmitJoinedRoom (''rfq-'' @ rid) rid]
            else [EmitError ''Access denied'' None]))"
  by (auto simp: joinQuotationRoom_def joinQuotationRoom_try_def joinRfqRoom_def
        joinRfqRoom_try_def truthy_def tmpl_def neitherParty_def requestedByOf_def)

theorem join_authorization_matrix_witness:
  "joinQuotationRoom sampleWorld idU1 (Some joinQ1) =
      [SocketJoin (''quotation-'' @ idQ1), EmitJoinedRoom (''quotation-'' @ idQ1) idQ1]
   \<and> joinQuotationRoom sampleWorld idU2 (Some joinQ1) =
      [SocketJoin (''quotation-'' @ idQ1), EmitJoinedRoom (''quotation-'' @ idQ1) idQ1]
   \<and> joinQuotationRoom sampleWorld idU3 (Some joinQ1) = [EmitError ''Access denied'' None]
   \<and> joinRfqRoom sampleWorld idU2 (Some joinR1) =
      [SocketJoin (''rfq-'' @ idR1), EmitJoinedRoom (''rfq-'' @ idR1) idR1]
   \<and> joinRfqRoom sampleWorld idU1 (Some joinR1) = [EmitError ''Access denied'' None]"
proof -
  have q: "ready (waitForDB (probes sampleWorld) 15 1000) \<and> quotationId joinQ1 = Some idQ1
      \<and> idQ1 \<noteq> [] \<and> findQuotation sampleWorld idQ1 = Inr (Some \<lparr>quotedBy = idU1, q_rfq = idR1\<rparr>)
      \<and> findRFQ sampleWorld (q_rfq \<lparr>quotedBy = idU1, q_rfq = idR1\<rparr>)
          = Inr (Some \<lparr>requestedBy = idU2\<rparr>)"
    by (simp add: sampleWorld_ready joinQ1_def noPayload_def) (simp add: sampleWorld_def idQ1_def)
  have r: "ready (waitForDB (probes sampleWorld) 15 1000) \<and> rfqId joinR1 = Some idR1
      \<and> idR1 \<noteq> [] \<and> findRFQ sampleWorld idR1 = Inr (Some \<lparr>requestedBy = idU2\<rparr>)"
    by (simp add: sampleWorld_ready joinR1_def noPayload_def) (simp add: sampleWorld_def idR1_def)
  note Q = join_authorization_matrix[THEN conjunct1, THEN mp, OF q]
  note R = join_authorization_matrix[THEN conjunct2, THEN mp, OF r]
  show ?thesis
    using Q[of idU1] Q[of idU2] Q[of idU3] R[of idU2] R[of idU1]
    by (simp add: ids_distinct)
qed

lemma hex_ids:
  "hexObjectId idU1 = Inr idU1" "hexObjectId idU2 = Inr idU2" "hexObjectId idU3 = Inr idU3"
  "hexObjectId idQ1 = Inr idQ1" "hexObjectId idR1 = Inr idR1" "hexObjectId idP1 = Inr idP1"
  "hexObjectId idP2 = Inr idP2" "hexObjectId idS1 = Inr idS1" "hexObjectId idS2 = Inr idS2"
  by (simp_all add: hexObjectId_def idU1_def idU2_def idU3_def idQ1_def idR1_def idP1_def
        idP2_def idS1_def idS2_def)

lemma ids_nonempty:
  "idU1 \<noteq> []" "idU2 \<noteq> []" "idU3 \<noteq> []" "idQ1 \<noteq> []" "idR1 \<noteq> []" "idP1 \<noteq> []" "idP2 \<noteq> []"
  "idS1 \<noteq> []" "idS2 \<noteq> []"
  by (simp_all add: idU1_def idU2_def idU3_def idQ1_def idR1_def idP1_def
        idP2_def idS1_def idS2_def)

lemma product_ids_distinct: "idP2 \<noteq> idP1" "idS2 \<noteq> idS1"
  by (simp_all add: idP1_def idP2_def idS1_def idS2_def)

lemma sample_P2: "getProductWithShop sampleWorld idP2 = Inr (Some \<lparr>pshop = None\<rparr>)"
  by (simp add: getProductWithShop_def resolveShop_def sampleWorld_def hex_ids ids_nonempty
        product_ids_distinct)

lemma sample_P1:
  "getProductWithShop sampleWorld idP1 = Inr (Some \<lparr>pshop = Some \<lparr>owner = Some idU3\<rparr>\<rparr>)"
  by (simp add: getProductWithShop_def resolveShop_def sampleWorld_def hex_ids ids_nonempty
        product_ids_distinct)


section \<open>Joining a product room\<close>

text \<open>
  C1 (as amended). Once the gate is open and the product is found, a product whose shop
  owner is unresolved makes \<open>join-product-room\<close> refuse every identity, the declared
  counterpart included, with the error \<open>Product shop information not available\<close>; the
  \<open>try\<close> block does not throw and no room is joined. A failed shop lookup is not fatal
  to \<open>getProductWithShop\<close>: it returns the product with \<open>shop = null\<close>.
\<close>

theorem joinProductRoom_unresolved_owner:
  "(ready (waitForDB (probes w) 15 1000) \<and> connState w = 1 \<and> truthy (productId d)
      \<and> truthy (receiverId d) \<and> \<not> productQuerySlow w
      \<and> getProductWithShop w (tmpl (productId d)) = Inr (Some p)
      \<and> \<not> truthy (shopOwnerId_join p)
     \<longrightarrow> joinProductRoom_try w uid (Some d)
           = ([EmitError ''Product shop information not available'' None], None)
         \<and> joinProductRoom w uid (Some d)
           = [EmitError ''Product shop information not available'' None])
   \<and> (connDb w \<and> newObjectId w pid = Inr oid \<and> findProduct w oid = Inr (Some pd)
      \<and> shopRef pd = Some ref \<and> ref \<noteq> []
      \<and> (isl (newObjectId w ref)
          \<or> (\<exists>sid. newObjectId w ref = Inr sid \<and> (isl (findShop w sid) \<or> findShop w sid = Inr None)))
     \<longrightarrow> getProductWithShop w pid = Inr (Some \<lparr>pshop = None\<rparr>)
         \<and> \<not> truthy (shopOwnerId_join \<lparr>pshop = None\<rparr>))"
proof (intro conjI impI)
  assume h: "ready (waitForDB (probes w) 15 1000) \<and> connState w = 1 \<and> truthy (productId d)
      \<and> truthy (receiverId d) \<and> \<not> productQuerySlow w
      \<and> getProductWithShop w (tmpl (productId d)) = Inr (Some p)
      \<and> \<not> truthy (shopOwnerId_join p)"
  then show t: "joinProductRoom_try w uid (Some d)
           = ([EmitError ''Product shop information not available'' None], None)"
    by (simp add: joinProductRoom_try_def)
  show "joinProductRoom w uid (Some d) = [EmitError ''Product shop information not available'' None]"
    by (simp add: joinProductRoom_def t)
next
  assume h: "connDb w \<and> newObjectId w pid = Inr oid \<and> findProduct w oid = Inr (Some pd)
      \<and> shopRef pd = Some ref \<and> ref \<noteq> []
      \<and> (isl (newObjectId w ref)
          \<or> (\<exists>sid. newObjectId w ref = Inr sid \<and> (isl (findShop w sid) \<or> findShop w sid = Inr None)))"
  then show "getProductWithShop w pid = Inr (Some \<lparr>pshop = None\<rparr>)"
    by (auto simp: getProductWithShop_def resolveShop_def isl_def)
  show "\<not> truthy (shopOwnerId_join \<lparr>pshop = None\<rparr>)"
    by (simp add: shopOwnerId_join_def truthy_def)
qed

text \<open>
  The claim as made fails where the requesting identity is the declared counterpart and
  the shop does not resolve: the join is refused.
\<close>

theorem joinProductRoom_counterpart_refused:
  "receiverId joinP2self = Some idU1
   \<and> getProductWithShop sampleWorld idP2 = Inr (Some \<lparr>pshop = None\<rparr>)
   \<and> joinProductRoom sampleWorld idU1 (Some joinP2self)
       = [EmitError ''Product shop information not available'' None]"
  by (simp add: joinProductRoom_def joinProductRoom_try_def sampleWorld_ready sample_P2
        joinP2self_def noPayload_def truthy_def tmpl_def ids_nonempty shopOwnerId_join_def)
     (simp add: sampleWorld_def)

theorem joinProductRoom_unresolved_owner_witness:
  "joinProductRoom sampleWorld idU1 (Some joinP2self)
       = [EmitError ''Product shop information not available'' None]
   \<and> joinProductRoom sampleWorld idU3 (Some joinP2self)
       = [EmitError ''Product shop information not available'' None]
   \<and> getProductWithShop sampleWorld idP2 = Inr (Some \<lparr>pshop = None\<rparr>)"
proof -
  have a: "ready (waitForDB (probes sampleWorld) 15 1000) \<and> connState sampleWorld = 1
      \<and> truthy (productId joinP2self) \<and> truthy (receiverId joinP2self)
      \<and> \<not> productQuerySlow sampleWorld
      \<and> getProductWithShop sampleWorld (tmpl (productId joinP2self)) = Inr (Some \<lparr>pshop = None\<rparr>)
      \<and> \<not> truthy (shopOwnerId_join \<lparr>pshop = None\<rparr>)"
    by (simp add: sampleWorld_ready joinP2self_def noPayload_def truthy_def tmpl_def
          ids_nonempty sample_P2 shopOwnerId_join_def) (simp add: sampleWorld_def)
  have b: "connDb sampleWorld \<and> newObjectId sampleWorld idP2 = Inr idP2
      \<and> findProduct sampleWorld idP2 = Inr (Some \<lparr>shopRef = Some idS2\<rparr>)
      \<and> shopRef \<lparr>shopRef = Some idS2\<rparr> = Some idS2 \<and> idS2 \<noteq> []
      \<and> (isl (newObjectId sampleWorld idS2)
          \<or> (\<exists>sid. newObjectId sampleWorld idS2 = Inr sid
                \<and> (isl (findShop sampleWorld sid) \<or> findShop sampleWorld sid = Inr None)))"
    by (simp add: sampleWorld_def hex_ids ids_nonempty product_ids_distinct)
  note A = joinProductRoom_unresolved_owner[THEN conjunct1, THEN mp, OF a]
  note B = joinProductRoom_unresolved_owner[THEN conjunct2, THEN mp, OF b]
  show ?thesis using A[of idU1] A[of idU3] B by simp
qed


section \<open>Validation of a message draft\<close>

lemma refObjectId_falsy: "\<not> truthy x \<Longrightarrow> refObjectId w x = Inr None"
  by (auto simp: refObjectId_def truthy_def split: option.splits)

lemma refObjectId_truthy: "truthy x \<Longrightarrow> refObjectId w x = Inr q \<Longrightarrow> q \<noteq> None"
  by (auto simp: refObjectId_def truthy_def split: option.splits sum.splits)

lemma refCount_zero:
  "refCount d = 0 \<longleftrightarrow> \<not> truthy (d_quotation d) \<and> \<not> truthy (d_rfq d) \<and> \<not> truthy (d_product d)"
  by (simp add: refCount_def)

lemma insertAndFetch_effects: "fst (insertAndFetch w doc) = [InsertOne doc]"
  by (simp add: insertAndFetch_def split: sum.splits option.splits bool.splits)

text \<open>
  C2 (as amended). A draft with none of \<open>quotation\<close>, \<open>rfq\<close>, \<open>product\<close> set never reaches
  \<open>insertOne\<close> and \<open>saveMessageNative\<close> throws; when the connection, the ping and the
  sender and receiver ids are in order, what it throws is the validation error. A draft
  with at least one of them set (one, two or three) passes the validation: with the same
  things in order and well-formed ids, \<open>insertOne\<close> is called with the document.
\<close>

theorem saveMessageNative_validation:
  "(refCount d = 0 \<longrightarrow> fst (saveMessageNative w d) = [] \<and> isl (snd (saveMessageNative w d)))
   \<and> (refCount d = 0 \<and> connState w = 1 \<and> connDb w \<and> pingDb w = None
       \<and> newObjectId w (d_sender d) = Inr s \<and> newObjectId w (d_receiver d) = Inr rc
      \<longrightarrow> saveMessageNative w d
            = ([], Inl (Error ''Either quotation, rfq, or product must be provided'')))
   \<and> (0 < refCount d \<and> connState w = 1 \<and> connDb w \<and> pingDb w = None
       \<and> refObjectId w (d_quotation d) = Inr q \<and> refObjectId w (d_rfq d) = Inr r
       \<and> refObjectId w (d_product d) = Inr p
       \<and> newObjectId w (d_sender d) = Inr s \<and> newObjectId w (d_receiver d) = Inr rc
      \<longrightarrow> fst (saveMessageNative w d)
            = [InsertOne \<lparr>md_quotation = q, md_rfq = r, md_product = p, md_sender = s,
                          md_receiver = rc, md_message = d_message d,
                          md_attachments = d_attachments d, md_readAt = None,
                          md_createdAt = now w\<rparr>])"
proof (intro conjI impI)
  assume z: "refCount d = 0"
  then have n: "refObjectId w (d_quotation d) = Inr None" "refObjectId w (d_rfq d) = Inr None"
    "refObjectId w (d_product d) = Inr None"
    by (simp_all add: refCount_zero refObjectId_falsy)
  show "fst (saveMessageNative w d) = []"
    by (simp add: saveMessageNative_def n split: option.splits sum.splits)
  show "isl (snd (saveMessageNative w d))"
    by (simp add: saveMessageNative_def n split: option.splits sum.splits)
next
  assume h: "refCount d = 0 \<and> connState w = 1 \<and> connDb w \<and> pingDb w = None
       \<and> newObjectId w (d_sender d) = Inr s \<and> newObjectId w (d_receiver d) = Inr rc"
  then have n: "refObjectId w (d_quotation d) = Inr None" "refObjectId w (d_rfq d) = Inr None"
    "refObjectId w (d_product d) = Inr None"
    by (simp_all add: refCount_zero refObjectId_falsy)
  from h show "saveMessageNative w d
            = ([], Inl (Error ''Either quotation, rfq, or product must be provided''))"
    by (simp add: saveMessageNative_def n)
next
  assume h: "0 < refCount d \<and> connState w = 1 \<and> connDb w \<and> pingDb w = None
       \<and> refObjectId w (d_quotation d) = Inr q \<and> refObjectId w (d_rfq d) = Inr r
       \<and> refObjectId w (d_product d) = Inr p
       \<and> newObjectId w (d_sender d) = Inr s \<and> newObjectId w (d_receiver d) = Inr rc"
  then have "truthy (d_quotation d) \<or> truthy (d_rfq d) \<or> truthy (d_product d)"
    using refCount_zero[of d] by auto
  with h have "\<not> (q = None \<and> r = None \<and> p = None)"
    using refObjectId_truthy by blast
  with h show "fst (saveMessageNative w d)
            = [InsertOne \<lparr>md_quotation = q, md_rfq = r, md_product = p, md_sender = s,
                          md_receiver = rc, md_message = d_message d,
                          md_attachments = d_attachments d, md_readAt = None,
                          md_createdAt = now w\<rparr>]"
    by (simp add: saveMessageNative_def insertAndFetch_effects)
qed

lemma sample_conn: "connState sampleWorld = 1" "connDb sampleWorld" "pingDb sampleWorld = None"
  "newObjectId sampleWorld = hexObjectId" "now sampleWorld = 0" "\<not> insertSlow sampleWorld"
  "\<not> findSlow sampleWorld" "\<not> senderSlow sampleWorld" "insertOne sampleWorld doc = Inr (Some idM1)"
  "readBack sampleWorld i = Inr True" "findUser sampleWorld i = Inr None"
  by (simp_all add: sampleWorld_def)

lemma sample_save:
  "refObjectId sampleWorld (d_quotation d) = Inr q \<Longrightarrow> refObjectId sampleWorld (d_rfq d) = Inr r \<Longrightarrow>
   refObjectId sampleWorld (d_product d) = Inr p \<Longrightarrow> hexObjectId (d_sender d) = Inr s \<Longrightarrow>
   hexObjectId (d_receiver d) = Inr rc \<Longrightarrow> \<not> (q = None \<and> r = None \<and> p = None) \<Longrightarrow>
   saveMessageNative sampleWorld d =
     ([InsertOne \<lparr>md_quotation = q, md_rfq = r, md_product = p, md_sender = s,
                          md_receiver = rc, md_message = d_message d,
                          md_attachments = d_attachments d, md_readAt = None,
                          md_createdAt = 0\<rparr>],
      Inr \<lparr>sm_id = idM1, sm_doc = \<lparr>md_quotation = q, md_rfq = r, md_product = p, md_sender = s,
                          md_receiver = rc, md_message = d_message d,
                          md_attachments = d_attachments d, md_readAt = None,
                          md_createdAt = 0\<rparr>, sm_sender = SenderId s\<rparr>)"
  by (auto simp add: saveMessageNative_def insertAndFetch_def populateSender_def sample_conn)

text \<open>
  The claim as made fails on a draft with two references set: it is inserted, with both.
\<close>

theorem saveMessageNative_two_references_inserted:
  "refCount draftTwo = 2
   \<and> saveMessageNative sampleWorld draftTwo =
       ([InsertOne (sampleDoc (Some idQ1) (Some idR1) None idU1 idU2)],
        Inr \<lparr>sm_id = idM1, sm_doc = sampleDoc (Some idQ1) (Some idR1) None idU1 idU2,
             sm_sender = SenderId idU1\<rparr>)"
proof -
  have c: "refCount draftTwo = 2"
    by (simp add: refCount_def draftTwo_def draftNone_def truthy_def ids_nonempty)
  have "saveMessageNative sampleWorld draftTwo =
       ([InsertOne (sampleDoc (Some idQ1) (Some idR1) None idU1 idU2)],
        Inr \<lparr>sm_id = idM1, sm_doc = sampleDoc (Some idQ1) (Some idR1) None idU1 idU2,
             sm_sender = SenderId idU1\<rparr>)"
    unfolding sampleDoc_def
    by (subst sample_save[of draftTwo "Some idQ1" "Some idR1" None idU1 idU2])
       (simp_all add: draftTwo_def draftNone_def refObjectId_def sample_conn hex_ids ids_nonempty)
  with c show ?thesis by simp
qed

theorem saveMessageNative_validation_witness:
  "saveMessageNative sampleWorld draftNone
      = ([], Inl (Error ''Either quotation, rfq, or product must be provided''))
   \<and> fst (saveMessageNative sampleWorld draftOne) = [InsertOne (sampleDoc None (Some idR1) None idU1 idU2)]
   \<and> fst (saveMessageNative sampleWorld draftTwo)
      = [InsertOne (sampleDoc (Some idQ1) (Some idR1) None idU1 idU2)]"
proof -
  have z: "refCount draftNone = 0 \<and> connState sampleWorld = 1 \<and> connDb sampleWorld
       \<and> pingDb sampleWorld = None
       \<and> newObjectId sampleWorld (d_sender draftNone) = Inr idU1
       \<and> newObjectId sampleWorld (d_receiver draftNone) = Inr idU2"
    by (simp add: refCount_def draftNone_def truthy_def sample_conn hex_ids)
  have one: "0 < refCount draftOne \<and> connState sampleWorld = 1 \<and> connDb sampleWorld
       \<and> pingDb sampleWorld = None
       \<and> refObjectId sampleWorld (d_quotation draftOne) = Inr None
       \<and> refObjectId sampleWorld (d_rfq draftOne) = Inr (Some idR1)
       \<and> refObjectId sampleWorld (d_product draftOne) = Inr None
       \<and> newObjectId sampleWorld (d_sender draftOne) = Inr idU1
       \<and> newObjectId sampleWorld (d_receiver draftOne) = Inr idU2"
    by (simp add: refCount_def draftOne_def draftNone_def truthy_def sample_conn hex_ids
          refObjectId_def ids_nonempty)
  have two: "0 < refCount draftTwo \<and> connState sampleWorld = 1 \<and> connDb sampleWorld
       \<and> pingDb sampleWorld = None
       \<and> refObjectId sampleWorld (d_quotation draftTwo) = Inr (Some idQ1)
       \<and> refObjectId sampleWorld (d_rfq draftTwo) = Inr (Some idR1)
       \<and> refObjectId sampleWorld (d_product draftTwo) = Inr None
       \<and> newObjectId sampleWorld (d_sender draftTwo) = Inr idU1
       \<and> newObjectId sampleWorld (d_receiver draftTwo) = Inr idU2"
    by (simp add: refCount_def draftTwo_def draftNone_def truthy_def sample_conn hex_ids
          refObjectId_def ids_nonempty)
  note Z = saveMessageNative_validation[THEN conjunct2, THEN conjunct1, THEN mp, OF z]
  note O = saveMessageNative_validation[THEN conjunct2, THEN conjunct2, THEN mp, OF one]
  note T = saveMessageNative_validation[THEN conjunct2, THEN conjunct2, THEN mp, OF two]
  show ?thesis using Z O T
    by (simp add: sampleDoc_def draftOne_def draftTwo_def draftNone_def sample_conn)
qed

section \<open>Sending a message\<close>

text \<open>
  C3 (as amended). In \<open>send-message\<close> on a quotation thread, a sender who is one of the two
  parties and names a receiver that is neither \<open>quotedBy\<close> nor the RFQ's \<open>requestedBy\<close>
  gets the error \<open>Invalid receiver\<close>, and nothing is inserted. On a product thread, a
  receiver that is neither the resolved shop owner nor the sender gets the error
  \<open>Access denied\<close>, and nothing is inserted. Nothing is stated for RFQ threads.
\<close>

theorem sendMessage_receiver_checks:
  "(ready (waitForDB (probes w) 15 1000) \<and> truthy (message d) \<and> receiver d = Some rcv \<and> rcv \<noteq> []
      \<and> quotationId d = Some qid \<and> qid \<noteq> []
      \<and> findQuotation w qid = Inr (Some q) \<and> findRFQ w (q_rfq q) = Inr (Some rf)
      \<and> (uid = quotedBy q \<or> uid = requestedBy rf)
      \<and> rcv \<noteq> quotedBy q \<and> rcv \<noteq> requestedBy rf
     \<longrightarrow> sendMessage w uid (Some d) = [EmitError ''Invalid receiver'' None])
   \<and> (ready (waitForDB (probes w) 15 1000) \<and> truthy (message d) \<and> receiver d = Some rcv \<and> rcv \<noteq> []
      \<and> \<not> truthy (quotationId d) \<and> \<not> truthy (rfqId d) \<and> productId d = Some pid \<and> pid \<noteq> []
      \<and> getProductWithShop w pid = Inr (Some p)
      \<and> shopOwnerId_send p \<noteq> Some rcv \<and> uid \<noteq> rcv
     \<longrightarrow> sendMessage w uid (Some d) = [EmitError ''Access denied'' None])"
proof (intro conjI impI)
  assume h: "ready (waitForDB (probes w) 15 1000) \<and> truthy (message d) \<and> receiver d = Some rcv \<and> rcv \<noteq> []
      \<and> quotationId d = Some qid \<and> qid \<noteq> []
      \<and> findQuotation w qid = Inr (Some q) \<and> findRFQ w (q_rfq q) = Inr (Some rf)
      \<and> (uid = quotedBy q \<or> uid = requestedBy rf)
      \<and> rcv \<noteq> quotedBy q \<and> rcv \<noteq> requestedBy rf"
  then have r: "sendRoom w uid d rcv = Inl ([EmitError ''Invalid receiver'' None], None)"
    by (auto simp: sendRoom_def truthy_def tmpl_def neitherParty_def requestedByOf_def)
  from h have "sendMessage_try w uid (Some d) = ([EmitError ''Invalid receiver'' None], None)"
    by (simp add: sendMessage_try_def truthy_def tmpl_def r)
  then show "sendMessage w uid (Some d) = [EmitError ''Invalid receiver'' None]"
    by (simp add: sendMessage_def)
next
  assume h: "ready (waitForDB (probes w) 15 1000) \<and> truthy (message d) \<and> receiver d = Some rcv \<and> rcv \<noteq> []
      \<and> \<not> truthy (quotationId d) \<and> \<not> truthy (rfqId d) \<and> productId d = Some pid \<and> pid \<noteq> []
      \<and> getProductWithShop w pid = Inr (Some p)
      \<and> shopOwnerId_send p \<noteq> Some rcv \<and> uid \<noteq> rcv"
  then have r: "sendRoom w uid d rcv = Inl ([EmitError ''Access denied'' None], None)"
    by (simp add: sendRoom_def tmpl_def)
  from h have "sendMessage_try w uid (Some d) = ([EmitError ''Access denied'' None], None)"
    by (simp add: sendMessage_try_def truthy_def tmpl_def r)
  then show "sendMessage w uid (Some d) = [EmitError ''Access denied'' None]"
    by (simp add: sendMessage_def)
qed

lemma sample_rfq: "findRFQ sampleWorld idR1 = Inr (Some \<lparr>requestedBy = idU2\<rparr>)"
  by (simp add: sampleWorld_def)

lemma sample_quotation:
  "findQuotation sampleWorld idQ1 = Inr (Some \<lparr>quotedBy = idU1, q_rfq = idR1\<rparr>)"
  by (simp add: sampleWorld_def)

lemma sendR1_fields:
  "rfqId sendR1 = Some idR1" "quotationId sendR1 = None" "productId sendR1 = None"
  "receiver sendR1 = Some idU3" "message sendR1 = Some ''hi''" "attachments sendR1 = None"
  by (simp_all add: sendR1_def noPayload_def)

lemma sendR1_room: "sendRoom sampleWorld idU2 sendR1 idU3 = Inr (''rfq-'' @ idR1)"
  by (simp add: sendRoom_def sendR1_fields truthy_def tmpl_def ids_nonempty sample_rfq)

lemma sendR1_saved:
  "saveMessageNative sampleWorld (draftOf idU2 sendR1)
     = ([InsertOne (sampleDoc None (Some idR1) None idU2 idU3)],
        Inr (sampleSaved (sampleDoc None (Some idR1) None idU2 idU3)))"
  unfolding sampleDoc_def sampleSaved_def
  by (subst sample_save[of _ None "Some idR1" None idU2 idU3])
     (simp_all add: draftOf_def sendR1_fields or_null_def truthy_def tmpl_def refObjectId_def
        sample_conn hex_ids ids_nonempty)

text \<open>
  The claim as made fails on an RFQ thread: the requester's message to an identity that
  the RFQ does not name is inserted and emitted.
\<close>

theorem sendMessage_rfq_any_receiver:
  "findRFQ sampleWorld idR1 = Inr (Some \<lparr>requestedBy = idU2\<rparr>)
   \<and> receiver sendR1 = Some idU3
   \<and> sendMessage sampleWorld idU2 (Some sendR1) =
      [InsertOne (sampleDoc None (Some idR1) None idU2 idU3),
       IoToEmit (''rfq-'' @ idR1) ''message-received''
         (broadcastOf sendR1 (sampleSaved (sampleDoc None (Some idR1) None idU2 idU3))),
       IoToEmit (''user-'' @ idU3) ''new-message''
         (broadcastOf sendR1 (sampleSaved (sampleDoc None (Some idR1) None idU2 idU3)))]"
proof -
  have "sendMessage_try sampleWorld idU2 (Some sendR1) =
      ([InsertOne (sampleDoc None (Some idR1) None idU2 idU3),
       IoToEmit (''rfq-'' @ idR1) ''message-received''
         (broadcastOf sendR1 (sampleSaved (sampleDoc None (Some idR1) None idU2 idU3))),
       IoToEmit (''user-'' @ idU3) ''new-message''
         (broadcastOf sendR1 (sampleSaved (sampleDoc None (Some idR1) None idU2 idU3)))], None)"
    by (simp add: sendMessage_try_def sampleWorld_ready sendR1_fields truthy_def tmpl_def
          ids_nonempty sendR1_room[unfolded tmpl_def] persistAndBroadcast_def sendR1_saved)
  then show ?thesis by (simp add: sendMessage_def sample_rfq sendR1_fields)
qed

theorem sendMessage_receiver_checks_witness:
  "sendMessage sampleWorld idU1 (Some sendQ1) = [EmitError ''Invalid receiver'' None]
   \<and> sendMessage sampleWorld idU1 (Some sendP1) = [EmitError ''Access denied'' None]"
proof -
  have q: "ready (waitForDB (probes sampleWorld) 15 1000) \<and> truthy (message sendQ1)
      \<and> receiver sendQ1 = Some idU3 \<and> idU3 \<noteq> []
      \<and> quotationId sendQ1 = Some idQ1 \<and> idQ1 \<noteq> []
      \<and> findQuotation sampleWorld idQ1 = Inr (Some \<lparr>quotedBy = idU1, q_rfq = idR1\<rparr>)
      \<and> findRFQ sampleWorld (q_rfq \<lparr>quotedBy = idU1, q_rfq = idR1\<rparr>) = Inr (Some \<lparr>requestedBy = idU2\<rparr>)
      \<and> (idU1 = quotedBy \<lparr>quotedBy = idU1, q_rfq = idR1\<rparr> \<or> idU1 = requestedBy \<lparr>requestedBy = idU2\<rparr>)
      \<and> idU3 \<noteq> quotedBy \<lparr>quotedBy = idU1, q_rfq = idR1\<rparr> \<and> idU3 \<noteq> requestedBy \<lparr>requestedBy = idU2\<rparr>"
    by (simp add: sampleWorld_ready sendQ1_def noPayload_def truthy_def ids_nonempty
          sample_quotation sample_rfq ids_distinct)
  have p: "ready (waitForDB (probes sampleWorld) 15 1000) \<and> truthy (message sendP1)
      \<and> receiver sendP1 = Some idU2 \<and> idU2 \<noteq> []
      \<and> \<not> truthy (quotationId sendP1) \<and> \<not> truthy (rfqId sendP1)
      \<and> productId sendP1 = Some idP1 \<and> idP1 \<noteq> []
      \<and> getProductWithShop sampleWorld idP1 = Inr (Some \<lparr>pshop = Some \<lparr>owner = Some idU3\<rparr>\<rparr>)
      \<and> shopOwnerId_send \<lparr>pshop = Some \<lparr>owner = Some idU3\<rparr>\<rparr> \<noteq> Some idU2 \<and> idU1 \<noteq> idU2"
    by (simp add: sampleWorld_ready sendP1_def noPayload_def truthy_def ids_nonempty
          sample_P1 ids_distinct shopOwnerId_send_def or_else_def)
  note Q = sendMessage_receiver_checks[THEN conjunct1, THEN mp, OF q]
  note P = sendMessage_receiver_checks[THEN conjunct2, THEN mp, OF p]
  show ?thesis using Q P by simp
qed


section \<open>Failures at the event boundary\<close>

lemma errorOnly_simps [simp]:
  "errorOnly [EmitError m None] = (m \<noteq> [])" "\<not> errorOnly []"
  by (simp_all add: errorOnly_def)




lemma insertAndFetch_shape:
  "insertAndFetch w doc = (effs, res) \<Longrightarrow>
     effs = [InsertOne doc] \<and> (\<forall>m. res = Inr m \<longrightarrow> sm_doc m = doc)"
  by (auto simp: insertAndFetch_def split: if_splits option.splits sum.splits bool.splits)

lemma saveMessageNative_shape:
  "saveMessageNative w d = (effs, res) \<Longrightarrow>
     (effs = [] \<and> isl res) \<or> (\<exists>doc. effs = [InsertOne doc] \<and> (\<forall>m. res = Inr m \<longrightarrow> sm_doc m = doc))"
  by (auto simp: saveMessageNative_def dest: insertAndFetch_shape
           split: if_splits option.splits sum.splits)

lemma sendRoom_shape:
  "sendRoom w uid d rcv = Inl (pre, thrown) \<Longrightarrow>
     (thrown \<noteq> None \<longrightarrow> pre = []) \<and> (thrown = None \<longrightarrow> errorOnly pre)"
  by (auto simp: sendRoom_def split: if_splits option.splits sum.splits bool.splits)






section \<open>The room of a typing indicator\<close>

lemma hyphens_append: "hyphens (s @ t) = hyphens s + hyphens t"
  by (simp add: hyphens_def)

lemma hyphens_free: "hyphenFree s \<Longrightarrow> hyphens s = 0"
  by (induction s) (auto simp: hyphens_def hyphenFree_def)

lemma hyphens_lit: "hyphens ''product-'' = 1" "hyphens ''-'' = 1"
  by (simp_all add: hyphens_def)

lemma hyphens_three:
  "hyphenFree p \<Longrightarrow> hyphenFree r \<Longrightarrow> hyphens (''product-'' @ p @ ''-'' @ r) = 2"
  by (simp only: hyphens_append hyphens_free hyphens_lit)

lemma sort_pair_nth:
  "hyphenFree a \<Longrightarrow> hyphenFree b \<Longrightarrow> hyphenFree (sort [a, b] ! 0) \<and> hyphenFree (sort [a, b] ! 1)"
  by (simp add: sort_pair)

lemma hyphens_four_join:
  assumes "hyphenFree p" "hyphenFree a" "hyphenFree b"
  shows "hyphens (productRoom_join p a b) = 3"
proof -
  from sort_pair_nth[OF assms(2,3)]
  have z: "hyphens (sort [a, b] ! 0) = 0" "hyphens (sort [a, b] ! 1) = 0"
    by (simp_all only: hyphens_free)
  show ?thesis
    unfolding productRoom_join_def Let_def
    by (simp only: hyphens_append hyphens_free[OF assms(1)] hyphens_lit z)
qed

lemma typing_ne_product:
  assumes "hyphenFree p" "hyphenFree r" "hyphenFree p'" "hyphenFree a" "hyphenFree b"
  shows "''product-'' @ p @ ''-'' @ r \<noteq> productRoom_join p' a b"
proof
  assume "''product-'' @ p @ ''-'' @ r = productRoom_join p' a b"
  then have "hyphens (''product-'' @ p @ ''-'' @ r) = hyphens (productRoom_join p' a b)"
    by (rule arg_cong)
  with hyphens_three[OF assms(1,2)] hyphens_four_join[OF assms(3,4,5)] show False by simp
qed

lemma productRoom_send_join: "productRoom_send p a b = productRoom_join p a b"
  by (simp add: productRoom_send_def productRoom_join_def)

lemma joinProductRoom_joins:
  "SocketJoin r \<in> set (joinProductRoom w u data) \<Longrightarrow>
     \<exists>d. data = Some d \<and> r = productRoom_join (tmpl (productId d)) u (tmpl (receiverId d))"
  by (auto simp: joinProductRoom_def joinProductRoom_try_def notReady_def
           split: if_splits option.splits sum.splits prod.splits)

lemma joinQuotationRoom_joins:
  "SocketJoin r \<in> set (joinQuotationRoom w u data) \<Longrightarrow> \<exists>q. r = ''quotation-'' @ q"
  by (auto simp: joinQuotationRoom_def joinQuotationRoom_try_def notReady_def
           split: if_splits option.splits sum.splits prod.splits bool.splits)

lemma joinRfqRoom_joins:
  "SocketJoin r \<in> set (joinRfqRoom w u data) \<Longrightarrow> \<exists>q. r = ''rfq-'' @ q"
  by (auto simp: joinRfqRoom_def joinRfqRoom_try_def notReady_def
           split: if_splits option.splits sum.splits prod.splits)

lemma onConnection_joins:
  "SocketJoin r \<in> set (fst (onConnection c st u)) \<Longrightarrow> r = ''user-'' @ u"
  by (auto simp: onConnection_def split: if_splits)

lemma sendRoom_rooms:
  "sendRoom w u d rcv = Inr rm \<Longrightarrow>
     (\<exists>q. rm = ''quotation-'' @ q) \<or> (\<exists>q. rm = ''rfq-'' @ q)
     \<or> rm = productRoom_send (tmpl (productId d)) u rcv"
  by (auto simp: sendRoom_def split: if_splits option.splits sum.splits bool.splits)

lemma persistAndBroadcast_rooms:
  assumes "IoToEmit r ev b \<in> set (fst (persistAndBroadcast w u d rcv chan))"
  shows "r = chan \<or> r = ''user-'' @ rcv"
proof -
  obtain effs res where s: "saveMessageNative w (draftOf u d) = (effs, res)"
    by (cases "saveMessageNative w (draftOf u d)")
  from saveMessageNative_shape[OF s] assms s show ?thesis
    by (cases res) (auto simp: persistAndBroadcast_def)
qed

lemma sendRoom_stop_silent:
  "sendRoom w u d rcv = Inl stop \<Longrightarrow> IoToEmit r ev b \<notin> set (fst stop)"
  by (cases stop) (auto simp: errorOnly_def dest!: sendRoom_shape
        split: list.splits effect.splits option.splits)

lemma sendMessage_try_rooms:
  assumes "IoToEmit r ev b \<in> set (fst (sendMessage_try w u (Some d)))"
  shows "\<exists>chan. sendRoom w u d (tmpl (receiver d)) = Inr chan
           \<and> (r = chan \<or> r = ''user-'' @ tmpl (receiver d))"
proof (cases "sendRoom w u d (tmpl (receiver d))")
  case (Inl stop)
  with assms sendRoom_stop_silent[OF Inl, of r ev b] show ?thesis
    by (auto simp: sendMessage_try_def notReady_def split: if_splits)
next
  case (Inr chan)
  with assms have "IoToEmit r ev b \<in> set (fst (persistAndBroadcast w u d (tmpl (receiver d)) chan))"
    by (auto simp: sendMessage_try_def notReady_def split: if_splits)
  from persistAndBroadcast_rooms[OF this] Inr show ?thesis by simp
qed

lemma sendMessage_rooms:
  assumes "IoToEmit rm ev b \<in> set (sendMessage w u (Some d))"
  shows "(\<exists>q. rm = ''quotation-'' @ q) \<or> (\<exists>q. rm = ''rfq-'' @ q) \<or> (\<exists>q. rm = ''user-'' @ q)
     \<or> rm = productRoom_send (tmpl (productId d)) u (tmpl (receiver d))"
proof -
  have "IoToEmit rm ev b \<in> set (fst (sendMessage_try w u (Some d)))"
  proof (cases "sendMessage_try w u (Some d)")
    case (Pair pre thrown)
    with assms show ?thesis by (cases thrown) (auto simp: sendMessage_def)
  qed
  from sendMessage_try_rooms[OF this]
  obtain chan where r: "sendRoom w u d (tmpl (receiver d)) = Inr chan"
    and m: "rm = chan \<or> rm = ''user-'' @ tmpl (receiver d)" by blast
  from sendRoom_rooms[OF r] m show ?thesis by auto
qed

text \<open>
  C10. For a \<open>typing\<close> or \<open>stop-typing\<close> event with \<open>productId\<close> and \<open>receiverId\<close> set, the
  indicator is emitted to the room \<open>product-{productId}-{receiverId}\<close>. With hyphen-free
  ids, that room differs from every product room that \<open>join-product-room\<close> and
  \<open>send-message\<close> compute, no handler and no connection ever joins it, and
  \<open>send-message\<close> never emits to it.
\<close>

theorem typing_room_never_joined:
  assumes "truthy (productId d)" "truthy (receiverId d)"
    and "hyphenFree (tmpl (productId d))" "hyphenFree (tmpl (receiverId d))"
    and "hyphenFree uid'" "hyphenFree (tmpl (productId d'))"
    and "hyphenFree (tmpl (receiverId d'))" "hyphenFree (tmpl (receiver d'))"
    and "rm = ''product-'' @ tmpl (productId d) @ ''-'' @ tmpl (receiverId d)"
  shows "typing uid (Some d) = Returned [SocketToEmit rm ''user-typing'' uid True]
       \<and> stopTyping uid (Some d) = Returned [SocketToEmit rm ''user-typing'' uid False]
       \<and> rm \<noteq> productRoom_join (tmpl (productId d')) uid' (tmpl (receiverId d'))
       \<and> rm \<noteq> productRoom_send (tmpl (productId d')) uid' (tmpl (receiver d'))
       \<and> SocketJoin rm \<notin> set (joinProductRoom w uid' (Some d'))
       \<and> SocketJoin rm \<notin> set (joinQuotationRoom w uid' data')
       \<and> SocketJoin rm \<notin> set (joinRfqRoom w uid' data')
       \<and> SocketJoin rm \<notin> set (fst (onConnection c st uid'))
       \<and> IoToEmit rm ev b \<notin> set (sendMessage w uid' (Some d'))"
proof -
  have ty: "typingRoom d = Some rm"
    using assms(1,2,9) by (simp add: typingRoom_def)
  have a: "typing uid (Some d) = Returned [SocketToEmit rm ''user-typing'' uid True]"
    by (simp add: typing_def ty)
  have b: "stopTyping uid (Some d) = Returned [SocketToEmit rm ''user-typing'' uid False]"
    by (simp add: stopTyping_def ty)
  have c: "rm \<noteq> productRoom_join (tmpl (productId d')) uid' (tmpl (receiverId d'))"
    unfolding assms(9) by (rule typing_ne_product[OF assms(3,4,6,5,7)])
  have d: "rm \<noteq> productRoom_send (tmpl (productId d')) uid' (tmpl (receiver d'))"
    unfolding assms(9) productRoom_send_join by (rule typing_ne_product[OF assms(3,4,6,5,8)])
  have p: "\<And>q. rm \<noteq> ''quotation-'' @ q" "\<And>q. rm \<noteq> ''rfq-'' @ q" "\<And>q. rm \<noteq> ''user-'' @ q"
    unfolding assms(9) by simp_all
  have e: "SocketJoin rm \<notin> set (joinProductRoom w uid' (Some d'))"
    using joinProductRoom_joins[of rm w uid' "Some d'"] c by auto
  have f: "SocketJoin rm \<notin> set (joinQuotationRoom w uid' data')"
    using joinQuotationRoom_joins[of rm w uid' data'] p by auto
  have g: "SocketJoin rm \<notin> set (joinRfqRoom w uid' data')"
    using joinRfqRoom_joins[of rm w uid' data'] p by auto
  have h: "SocketJoin rm \<notin> set (fst (onConnection c st uid'))"
    using onConnection_joins[of rm c st uid'] p by auto
  have i: "IoToEmit rm ev b \<notin> set (sendMessage w uid' (Some d'))"
    using sendMessage_rooms[of rm ev b w uid' d'] p d by auto
  from a b c d e f g h i show ?thesis by blast
qed

section \<open>Delivery of a persisted message\<close>

lemma insertAndFetch_saved:
  "insertAndFetch w doc = (effs, Inr m) \<Longrightarrow>
     effs = [InsertOne doc] \<and> sm_doc m = doc \<and> insertOne w doc = Inr (Some (sm_id m))
     \<and> sm_sender m = populateSender w (md_sender doc)"
  by (auto simp: insertAndFetch_def split: if_splits option.splits sum.splits bool.splits)

lemma saveMessageNative_saved:
  assumes "saveMessageNative w dr = (effs, Inr m)"
  shows "\<exists>q r p s rc.
           refObjectId w (d_quotation dr) = Inr q \<and> refObjectId w (d_rfq dr) = Inr r
           \<and> refObjectId w (d_product dr) = Inr p
           \<and> newObjectId w (d_sender dr) = Inr s \<and> newObjectId w (d_receiver dr) = Inr rc
           \<and> sm_doc m = \<lparr>md_quotation = q, md_rfq = r, md_product = p, md_sender = s,
                            md_receiver = rc, md_message = d_message dr,
                            md_attachments = d_attachments dr, md_readAt = None,
                            md_createdAt = now w\<rparr>
           \<and> insertOne w (sm_doc m) = Inr (Some (sm_id m))
           \<and> sm_sender m = populateSender w s
           \<and> effs = [InsertOne (sm_doc m)]"
  using assms
  by (auto simp: saveMessageNative_def dest!: insertAndFetch_saved
           split: if_splits option.splits sum.splits)

text \<open>
  C8. When \<open>send-message\<close> passes its checks and \<open>saveMessageNative\<close> returns the saved
  message, the handler emits \<open>message-received\<close> to the thread's room and \<open>new-message\<close>
  to the receiver's personal room \<open>user-{receiver}\<close>, with the same payload object in
  both, and emits nothing else. The payload is the serialized persisted message: the id
  that \<open>insertOne\<close> returned for the stored document, the document's thread references,
  receiver and creation time, the body and attachments of the event, and the sender as
  its id with the fields of the user lookup (absent when the lookup found nothing),
  beside the thread ids of the event. The personal room is the one the receiver's
  socket joins on connection.
\<close>

theorem sendMessage_fan_out:
  "ready (waitForDB (probes w) 15 1000) \<and> truthy (message d) \<and> truthy (receiver d)
     \<and> (truthy (quotationId d) \<or> truthy (rfqId d) \<or> truthy (productId d))
     \<and> sendRoom w uid d (tmpl (receiver d)) = Inr rm
     \<and> saveMessageNative w (draftOf uid d) = (effs, Inr m)
   \<longrightarrow> (\<exists>q r p s rc.
          refObjectId w (or_null (quotationId d)) = Inr q
        \<and> refObjectId w (or_null (rfqId d)) = Inr r
        \<and> refObjectId w (or_null (productId d)) = Inr p
        \<and> newObjectId w uid = Inr s \<and> newObjectId w (tmpl (receiver d)) = Inr rc
        \<and> sm_doc m = \<lparr>md_quotation = q, md_rfq = r, md_product = p, md_sender = s,
                         md_receiver = rc, md_message = tmpl (message d),
                         md_attachments = (case attachments d of None \<Rightarrow> [] | Some a \<Rightarrow> a),
                         md_readAt = None, md_createdAt = now w\<rparr>
        \<and> insertOne w (sm_doc m) = Inr (Some (sm_id m))
        \<and> (let sent =
               \<lparr>b_message =
                  \<lparr>fm_id = sm_id m, fm_quotation = q, fm_rfq = r, fm_product = p,
                   fm_sender =
                     Some \<lparr>sv_id = s,
                           sv_username = (case populateSender w s of
                                            SenderId i \<Rightarrow> None | SenderDoc i u \<Rightarrow> username u),
                           sv_email = (case populateSender w s of
                                         SenderId i \<Rightarrow> None | SenderDoc i u \<Rightarrow> email u),
                           sv_profile = (case populateSender w s of
                                           SenderId i \<Rightarrow> None | SenderDoc i u \<Rightarrow> profile u)\<rparr>,
                   fm_receiver = rc, fm_message = tmpl (message d),
                   fm_attachments = (case attachments d of None \<Rightarrow> [] | Some a \<Rightarrow> a),
                   fm_readAt = None, fm_createdAt = now w\<rparr>,
                b_quotationId = or_null (quotationId d), b_rfqId = or_null (rfqId d),
                b_productId = or_null (productId d)\<rparr>
            in sendMessage w uid (Some d) =
                 [InsertOne (sm_doc m),
                  IoToEmit rm ''message-received'' sent,
                  IoToEmit (''user-'' @ tmpl (receiver d)) ''new-message'' sent]))
       \<and> SocketJoin (''user-'' @ tmpl (receiver d))
            \<in> set (fst (onConnection dbConnected st (tmpl (receiver d))))"
proof
  assume h: "ready (waitForDB (probes w) 15 1000) \<and> truthy (message d) \<and> truthy (receiver d)
     \<and> (truthy (quotationId d) \<or> truthy (rfqId d) \<or> truthy (productId d))
     \<and> sendRoom w uid d (tmpl (receiver d)) = Inr rm
     \<and> saveMessageNative w (draftOf uid d) = (effs, Inr m)"
  then have sv: "saveMessageNative w (draftOf uid d) = (effs, Inr m)" by simp
  from saveMessageNative_saved[OF sv] obtain q r p s rc where
    q: "refObjectId w (or_null (quotationId d)) = Inr q"
    and r: "refObjectId w (or_null (rfqId d)) = Inr r"
    and p: "refObjectId w (or_null (productId d)) = Inr p"
    and s: "newObjectId w uid = Inr s"
    and rc: "newObjectId w (tmpl (receiver d)) = Inr rc"
    and doc: "sm_doc m = \<lparr>md_quotation = q, md_rfq = r, md_product = p, md_sender = s,
                         md_receiver = rc, md_message = tmpl (message d),
                         md_attachments = (case attachments d of None \<Rightarrow> [] | Some a \<Rightarrow> a),
                         md_readAt = None, md_createdAt = now w\<rparr>"
    and ins: "insertOne w (sm_doc m) = Inr (Some (sm_id m))"
    and snd: "sm_sender m = populateSender w s"
    and e: "effs = [InsertOne (sm_doc m)]"
    by (auto simp: draftOf_def)
  have pop: "populateSender w s = SenderId s \<or> (\<exists>u. populateSender w s = SenderDoc s u)"
    by (auto simp: populateSender_def split: sum.splits option.splits)
  have view: "formatSender (sm_sender m) =
       \<lparr>sv_id = s,
        sv_username = (case populateSender w s of SenderId i \<Rightarrow> None | SenderDoc i u \<Rightarrow> username u),
        sv_email = (case populateSender w s of SenderId i \<Rightarrow> None | SenderDoc i u \<Rightarrow> email u),
        sv_profile = (case populateSender w s of SenderId i \<Rightarrow> None | SenderDoc i u \<Rightarrow> profile u)\<rparr>"
    using pop by (auto simp: formatSender_def snd)
  have pl: "broadcastOf d m =
       \<lparr>b_message =
          \<lparr>fm_id = sm_id m, fm_quotation = q, fm_rfq = r, fm_product = p,
           fm_sender =
             Some \<lparr>sv_id = s,
                   sv_username = (case populateSender w s of
                                    SenderId i \<Rightarrow> None | SenderDoc i u \<Rightarrow> username u),
                   sv_email = (case populateSender w s of
                                 SenderId i \<Rightarrow> None | SenderDoc i u \<Rightarrow> email u),
                   sv_profile = (case populateSender w s of
                                   SenderId i \<Rightarrow> None | SenderDoc i u \<Rightarrow> profile u)\<rparr>,
           fm_receiver = rc, fm_message = tmpl (message d),
           fm_attachments = (case attachments d of None \<Rightarrow> [] | Some a \<Rightarrow> a),
           fm_readAt = None, fm_createdAt = now w\<rparr>,
        b_quotationId = or_null (quotationId d), b_rfqId = or_null (rfqId d),
        b_productId = or_null (productId d)\<rparr>"
    by (simp add: broadcastOf_def formatMessage_def view doc)
  from h have "sendMessage_try w uid (Some d) =
        ([InsertOne (sm_doc m),
         IoToEmit rm ''message-received'' (broadcastOf d m),
         IoToEmit (''user-'' @ tmpl (receiver d)) ''new-message'' (broadcastOf d m)], None)"
    by (auto simp: sendMessage_try_def persistAndBroadcast_def e)
  then have a: "sendMessage w uid (Some d) =
        [InsertOne (sm_doc m),
         IoToEmit rm ''message-received'' (broadcastOf d m),
         IoToEmit (''user-'' @ tmpl (receiver d)) ''new-message'' (broadcastOf d m)]"
    by (simp add: sendMessage_def)
  have b: "SocketJoin (''user-'' @ tmpl (receiver d))
            \<in> set (fst (onConnection dbConnected st (tmpl (receiver d))))"
    by (simp add: onConnection_def)
  show "(\<exists>q r p s rc.
          refObjectId w (or_null (quotationId d)) = Inr q
        \<and> refObjectId w (or_null (rfqId d)) = Inr r
        \<and> refObjectId w (or_null (productId d)) = Inr p
        \<and> newObjectId w uid = Inr s \<and> newObjectId w (tmpl (receiver d)) = Inr rc
        \<and> sm_doc m = \<lparr>md_quotation = q, md_rfq = r, md_product = p, md_sender = s,
                         md_receiver = rc, md_message = tmpl (message d),
                         md_attachments = (case attachments d of None \<Rightarrow> [] | Some a \<Rightarrow> a),
                         md_readAt = None, md_createdAt = now w\<rparr>
        \<and> insertOne w (sm_doc m) = Inr (Some (sm_id m))
        \<and> (let sent =
               \<lparr>b_message =
                  \<lparr>fm_id = sm_id m, fm_quotation = q, fm_rfq = r, fm_product = p,
                   fm_sender =
                     Some \<lparr>sv_id = s,
                           sv_username = (case populateSender w s of
                                            SenderId i \<Rightarrow> None | SenderDoc i u \<Rightarrow> username u),
                           sv_email = (case populateSender w s of
                                         SenderId i \<Rightarrow> None | SenderDoc i u \<Rightarrow> email u),
                           sv_profile = (case populateSender w s of
                                           SenderId i \<Rightarrow> None | SenderDoc i u \<Rightarrow> profile u)\<rparr>,
                   fm_receiver = rc, fm_message = tmpl (message d),
                   fm_attachments = (case attachments d of None \<Rightarrow> [] | Some a \<Rightarrow> a),
                   fm_readAt = None, fm_createdAt = now w\<rparr>,
                b_quotationId = or_null (quotationId d), b_rfqId = or_null (rfqId d),
                b_productId = or_null (productId d)\<rparr>
            in sendMessage w uid (Some d) =
                 [InsertOne (sm_doc m),
                  IoToEmit rm ''message-received'' sent,
                  IoToEmit (''user-'' @ tmpl (receiver d)) ''new-message'' sent]))
       \<and> SocketJoin (''user-'' @ tmpl (receiver d))
            \<in> set (fst (onConnection dbConnected st (tmpl (receiver d))))"
    unfolding Let_def
    using q r p s rc doc ins a[unfolded pl] b by blast
qed

lemma sendQ1ok_fields:
  "rfqId sendQ1ok = None" "quotationId sendQ1ok = Some idQ1" "productId sendQ1ok = None"
  "receiver sendQ1ok = Some idU2" "message sendQ1ok = Some ''hi''" "attachments sendQ1ok = None"
  by (simp_all add: sendQ1ok_def noPayload_def)

lemma namedWorld_fields:
  "probes namedWorld = probes sampleWorld" "connState namedWorld = 1" "connDb namedWorld"
  "pingDb namedWorld = None" "newObjectId namedWorld = hexObjectId" "now namedWorld = 0"
  "\<not> insertSlow namedWorld" "\<not> findSlow namedWorld" "\<not> senderSlow namedWorld"
  "insertOne namedWorld doc = Inr (Some idM1)" "readBack namedWorld i = Inr True"
  "findQuotation namedWorld = findQuotation sampleWorld"
  "findRFQ namedWorld = findRFQ sampleWorld"
  "findUser namedWorld idU1 = Inr (Some \<lparr>username = Some ''alice'',
                                           email = Some ''alice@example.com'',
                                           profile = None\<rparr>)"
  by (simp_all add: namedWorld_def sampleWorld_def)

lemma namedWorld_room: "sendRoom namedWorld idU1 sendQ1ok idU2 = Inr (''quotation-'' @ idQ1)"
  by (simp add: sendRoom_def sendQ1ok_fields truthy_def tmpl_def ids_nonempty sample_rfq
        sample_quotation neitherParty_def requestedByOf_def ids_distinct namedWorld_fields)

lemma namedWorld_saved:
  "saveMessageNative namedWorld (draftOf idU1 sendQ1ok)
     = ([InsertOne (sampleDoc (Some idQ1) None None idU1 idU2)],
        Inr \<lparr>sm_id = idM1, sm_doc = sampleDoc (Some idQ1) None None idU1 idU2,
             sm_sender = SenderDoc idU1 \<lparr>username = Some ''alice'',
                                          email = Some ''alice@example.com'',
                                          profile = None\<rparr>\<rparr>)"
  by (simp add: saveMessageNative_def insertAndFetch_def populateSender_def namedWorld_fields
        draftOf_def sendQ1ok_fields or_null_def truthy_def tmpl_def refObjectId_def hex_ids
        ids_nonempty sampleDoc_def)

theorem sendMessage_fan_out_witness:
  "(let sent =
      \<lparr>b_message =
         \<lparr>fm_id = idM1, fm_quotation = Some idQ1, fm_rfq = None, fm_product = None,
          fm_sender = Some \<lparr>sv_id = idU1, sv_username = Some ''alice'',
                            sv_email = Some ''alice@example.com'', sv_profile = None\<rparr>,
          fm_receiver = idU2, fm_message = ''hi'', fm_attachments = [],
          fm_readAt = None, fm_createdAt = 0\<rparr>,
       b_quotationId = Some idQ1, b_rfqId = None, b_productId = None\<rparr>
    in sendMessage namedWorld idU1 (Some sendQ1ok) =
         [InsertOne (sampleDoc (Some idQ1) None None idU1 idU2),
          IoToEmit (''quotation-'' @ idQ1) ''message-received'' sent,
          IoToEmit (''user-'' @ idU2) ''new-message'' sent])
   \<and> SocketJoin (''user-'' @ idU2) \<in> set (fst (onConnection True 1 idU2))"
proof -
  have h: "ready (waitForDB (probes namedWorld) 15 1000) \<and> truthy (message sendQ1ok)
     \<and> truthy (receiver sendQ1ok)
     \<and> (truthy (quotationId sendQ1ok) \<or> truthy (rfqId sendQ1ok) \<or> truthy (productId sendQ1ok))
     \<and> sendRoom namedWorld idU1 sendQ1ok (tmpl (receiver sendQ1ok)) = Inr (''quotation-'' @ idQ1)
     \<and> saveMessageNative namedWorld (draftOf idU1 sendQ1ok)
        = ([InsertOne (sampleDoc (Some idQ1) None None idU1 idU2)],
           Inr \<lparr>sm_id = idM1, sm_doc = sampleDoc (Some idQ1) None None idU1 idU2,
                sm_sender = SenderDoc idU1 \<lparr>username = Some ''alice'',
                                             email = Some ''alice@example.com'',
                                             profile = None\<rparr>\<rparr>)"
    by (simp add: namedWorld_fields sampleWorld_ready sendQ1ok_fields truthy_def tmpl_def
          ids_nonempty namedWorld_room namedWorld_saved)
  have pop: "populateSender namedWorld idU1
               = SenderDoc idU1 \<lparr>username = Some ''alice'', email = Some ''alice@example.com'',
                                 profile = None\<rparr>"
    by (simp add: populateSender_def namedWorld_fields)
  from sendMessage_fan_out[THEN mp, OF h, of True 1] show ?thesis
    by (auto simp: Let_def sendQ1ok_fields tmpl_def or_null_def truthy_def refObjectId_def
          namedWorld_fields hex_ids ids_nonempty pop sampleDoc_def)
qed

section \<open>Sample runs of failing events and of a typing indicator\<close>





lemma hyphenFree_ids: "hyphenFree idU1" "hyphenFree idU2" "hyphenFree idU3" "hyphenFree idP1"
  by (simp_all add: hyphenFree_def idU1_def idU2_def idU3_def idP1_def)

theorem typing_room_never_joined_witness:
  "typing idU1 (Some typingP1)
      = Returned [SocketToEmit (''product-'' @ idP1 @ ''-'' @ idU3) ''user-typing'' idU1 True]
   \<and> stopTyping idU1 (Some typingP1)
      = Returned [SocketToEmit (''product-'' @ idP1 @ ''-'' @ idU3) ''user-typing'' idU1 False]
   \<and> joinProductRoom sampleWorld idU1 (Some joinP1)
      = [SocketJoin (''product-'' @ idP1 @ ''-'' @ idU1 @ ''-'' @ idU3),
         EmitJoinedRoom (''product-'' @ idP1 @ ''-'' @ idU1 @ ''-'' @ idU3) idP1]
   \<and> ''product-'' @ idP1 @ ''-'' @ idU3 \<noteq> productRoom_join idP1 idU1 idU3
   \<and> SocketJoin (''product-'' @ idP1 @ ''-'' @ idU3) \<notin> set (joinProductRoom sampleWorld idU1 (Some joinP1))
   \<and> SocketJoin (''product-'' @ idP1 @ ''-'' @ idU3) \<notin> set (fst (onConnection True 1 idU1))"
proof -
  have f: "productId typingP1 = Some idP1" "receiverId typingP1 = Some idU3"
    "productId joinP1 = Some idP1" "receiverId joinP1 = Some idU3" "receiver joinP1 = None"
    by (simp_all add: typingP1_def joinP1_def noPayload_def)
  have le: "idU1 \<le> idU3"
    by (simp add: idU1_def idU3_def)
  have j: "joinProductRoom sampleWorld idU1 (Some joinP1)
      = [SocketJoin (''product-'' @ idP1 @ ''-'' @ idU1 @ ''-'' @ idU3),
         EmitJoinedRoom (''product-'' @ idP1 @ ''-'' @ idU1 @ ''-'' @ idU3) idP1]"
    by (simp add: joinProductRoom_def joinProductRoom_try_def sampleWorld_ready sample_conn f
          truthy_def tmpl_def ids_nonempty sample_P1 shopOwnerId_join_def or_else_def
          productRoom_join_def le)
       (simp add: sampleWorld_def)
  note T = typing_room_never_joined[of typingP1 idU1 joinP1
             "''product-'' @ idP1 @ ''-'' @ idU3" idU1 sampleWorld None True 1
             "''message-received''" "broadcastOf joinP1 (sampleSaved (sampleDoc None None None idU1 idU3))"]
  have "hyphenFree ''undefined''" by (simp add: hyphenFree_def)
  with T j show ?thesis
    by (simp add: f truthy_def tmpl_def ids_nonempty hyphenFree_ids)
qed

section \<open>A message with two thread references through the handler\<close>

text \<open>
  \<open>send-message\<close> with both \<open>quotationId\<close> and \<open>rfqId\<close> set takes the quotation branch
  and hands both ids to \<open>saveMessageNative\<close>: the document is inserted with both.
\<close>

lemma sendMessage_two_references_inserted:
  "sendMessage sampleWorld idU1 (Some sendQ1R1) =
      [InsertOne (sampleDoc (Some idQ1) (Some idR1) None idU1 idU2),
       IoToEmit (''quotation-'' @ idQ1) ''message-received''
         (broadcastOf sendQ1R1 (sampleSaved (sampleDoc (Some idQ1) (Some idR1) None idU1 idU2))),
       IoToEmit (''user-'' @ idU2) ''new-message''
         (broadcastOf sendQ1R1 (sampleSaved (sampleDoc (Some idQ1) (Some idR1) None idU1 idU2)))]"
proof -
  have f: "rfqId sendQ1R1 = Some idR1" "quotationId sendQ1R1 = Some idQ1"
    "productId sendQ1R1 = None" "receiver sendQ1R1 = Some idU2" "message sendQ1R1 = Some ''hi''"
    "attachments sendQ1R1 = None"
    by (simp_all add: sendQ1R1_def noPayload_def)
  have r: "sendRoom sampleWorld idU1 sendQ1R1 idU2 = Inr (''quotation-'' @ idQ1)"
    by (simp add: sendRoom_def f truthy_def tmpl_def ids_nonempty sample_rfq
        sample_quotation neitherParty_def requestedByOf_def ids_distinct)
  have s: "saveMessageNative sampleWorld (draftOf idU1 sendQ1R1)
     = ([InsertOne (sampleDoc (Some idQ1) (Some idR1) None idU1 idU2)],
        Inr (sampleSaved (sampleDoc (Some idQ1) (Some idR1) None idU1 idU2)))"
    unfolding sampleDoc_def sampleSaved_def
    by (subst sample_save[of _ "Some idQ1" "Some idR1" None idU1 idU2])
       (simp_all add: draftOf_def f or_null_def truthy_def tmpl_def refObjectId_def
          sample_conn hex_ids ids_nonempty)
  have "sendMessage_try sampleWorld idU1 (Some sendQ1R1) =
      ([InsertOne (sampleDoc (Some idQ1) (Some idR1) None idU1 idU2),
       IoToEmit (''quotation-'' @ idQ1) ''message-received''
         (broadcastOf sendQ1R1 (sampleSaved (sampleDoc (Some idQ1) (Some idR1) None idU1 idU2))),
       IoToEmit (''user-'' @ idU2) ''new-message''
         (broadcastOf sendQ1R1 (sampleSaved (sampleDoc (Some idQ1) (Some idR1) None idU1 idU2)))],
       None)"
    by (simp add: sendMessage_try_def sampleWorld_ready f truthy_def tmpl_def
          ids_nonempty r[unfolded tmpl_def] persistAndBroadcast_def s)
  then show ?thesis by (simp add: sendMessage_def)
qed

end
